theory Spec2Isabelle
  imports Main
begin

section \<open>Python values, exceptions and library objects\<close>

text \<open>
  The module \<^verbatim>\<open>oic/utils/rp/__init__.py\<close> defines \<^verbatim>\<open>OIDCError\<close>, the relying-party
  \<^verbatim>\<open>Client\<close> and the registry \<^verbatim>\<open>OIDCClients\<close>. Exceptions are values of \<open>exc\<close>; an
  operation yields \<open>Inl e\<close> when it raises \<open>e\<close> and \<open>Inr v\<close> when it returns \<open>v\<close>.
\<close>

datatype exc =
    OIDCError string
  | KeyError string
  | IndexError
  | TypeError string
  | MissingAttribute string
  | PyException string
  | LibraryError string

datatype pyval = Str string | StrList "string list"

text \<open>Subscription \<^verbatim>\<open>d[k]\<close> of a dict or protocol message: \<^verbatim>\<open>KeyError\<close> on a missing key.\<close>

definition getitem :: "(string \<rightharpoonup> 'v) \<Rightarrow> string \<Rightarrow> exc + 'v" where
  "getitem d k = (case d k of None \<Rightarrow> Inl (KeyError k) | Some v \<Rightarrow> Inr v)"

text \<open>The same for a message field held in a typed slot: \<open>None\<close> is an absent key.\<close>

definition getfield :: "'v option \<Rightarrow> string \<Rightarrow> exc + 'v" where
  "getfield slot k = (case slot of None \<Rightarrow> Inl (KeyError k) | Some v \<Rightarrow> Inr v)"

text \<open>\<^verbatim>\<open>xs[0]\<close> on a list: \<^verbatim>\<open>IndexError\<close> when it is empty.\<close>

definition first_item :: "'a list \<Rightarrow> exc + 'a" where
  "first_item xs = (case xs of [] \<Rightarrow> Inl IndexError | x # _ \<Rightarrow> Inr x)"

text \<open>
  An ID token: its claims (\<^verbatim>\<open>_id_token['iss']\<close>, \<^verbatim>\<open>['sub']\<close>, \<^verbatim>\<open>['nonce']\<close>) and its JWS
  header (\<^verbatim>\<open>_id_token.jws_header['alg']\<close>).
\<close>

record IdToken =
  claims :: "string \<rightharpoonup> string"
  jws_header :: "string \<rightharpoonup> string"

text \<open>
  A reply of the protocol library is either an \<^verbatim>\<open>ErrorResponse\<close> (with its \<^verbatim>\<open>error\<close>
  code) or the message of the expected class.
\<close>

datatype 'a reply = ErrorResponse string | Response 'a

record AuthorizationResponse =
  ar_state :: "string option"
  ar_code :: "string option"
  ar_id_token :: "IdToken option"

record AccessTokenResponse =
  at_id_token :: "IdToken option"

record RegistrationResponse =
  redirect_uris :: "string list option"
  token_endpoint_auth_method :: "string option"

text \<open>The attributes of a \<^verbatim>\<open>Client\<close> object that this module reads or writes.\<close>

record Client =
  client_id :: "string option"
  client_secret :: "string option"
  behaviour :: "string \<rightharpoonup> pyval"
  registration_response :: "RegistrationResponse option"
  provider_info :: "string \<rightharpoonup> string"
  id_token :: "(string \<rightharpoonup> IdToken) option"
  allow_sign_alg_none :: bool
  userinfo_request_method :: string
  allow :: "string \<rightharpoonup> bool"
  verify_ssl :: bool

type_synonym session = "string \<rightharpoonup> string"

record token_request =
  tr_scope :: string
  tr_state :: string
  tr_code :: string
  tr_redirect_uri :: string
  tr_client_id :: "string option"
  tr_client_secret :: "string option"
  tr_authn_method :: string

record ClientInfo =
  ci_redirect_uris :: "string list option"
  ci_other :: "(string \<times> pyval) list"

text \<open>The requests that leave the process, in the order they are issued.\<close>

datatype net_call =
    TokenRequest token_request
  | UserInfoRequest string "string option"
  | WebFinger string
  | ProviderConfigRequest string
  | RegistrationRequest string ClientInfo

text \<open>
  The protocol library and the world behind it are parameters: what the OP answers, what
  the random generator yields (\<open>rndstr E i\<close> is the value of the \<open>i\<close>-th call made by an
  operation), how the library's own object methods change a client, and the two
  standard-library functions \<^verbatim>\<open>hashlib.sha256(...).hexdigest()\<close> and \<^verbatim>\<open>str.format\<close>.
\<close>

record env =
  parse_response :: "string \<Rightarrow> exc + AuthorizationResponse reply"
  do_access_token_request :: "token_request \<Rightarrow> exc + AccessTokenResponse reply"
  do_user_info_request :: "string \<Rightarrow> string option \<Rightarrow> exc + (string \<rightharpoonup> string) reply"
  uri_and_body :: "(string \<rightharpoonup> pyval) \<Rightarrow> exc + string \<times> (string \<times> string) list"
  rndstr :: "nat \<Rightarrow> string"
  oic_Client_init :: "bool \<Rightarrow> Client"
  discovery_query :: "string \<Rightarrow> exc + string"
  provider_config :: "Client \<Rightarrow> string \<Rightarrow> exc + (string \<rightharpoonup> string) \<times> Client"
  register :: "Client \<Rightarrow> string \<Rightarrow> ClientInfo \<Rightarrow> exc + Client"
  handle_provider_config :: "Client \<Rightarrow> (string \<rightharpoonup> string) \<Rightarrow> string \<Rightarrow> exc + Client"
  store_registration_info :: "Client \<Rightarrow> RegistrationResponse \<Rightarrow> exc + Client"
  sha256_hexdigest :: "string \<Rightarrow> string"
  str_format :: "string \<Rightarrow> string \<Rightarrow> string \<Rightarrow> exc + string"

section \<open>Client\<close>

text \<open>
  \<^verbatim>\<open>Client.__init__\<close>: the base class initialises the object (\<open>base\<close>), then the
  behaviour is taken when it is a non-empty dict, and the two attributes of this class
  are set.
\<close>

definition Client_init :: "Client \<Rightarrow> (string \<rightharpoonup> pyval) option \<Rightarrow> Client" where
  "Client_init base behaviour_arg =
     (let self = (case behaviour_arg of
                    None \<Rightarrow> base
                  | Some b \<Rightarrow> if b \<noteq> Map.empty then base\<lparr>behaviour := b\<rparr> else base)
      in self\<lparr>userinfo_request_method := [], allow_sign_alg_none := False\<rparr>)"

datatype redirect = Redirect string "(string \<times> string) list"

text \<open>What \<^verbatim>\<open>callback\<close> can return: a redirect, an \<^verbatim>\<open>OIDCError\<close> object, or the pair.\<close>

datatype cb_value =
    RedirectResp redirect
  | ErrorObject exc
  | Identity string "string \<rightharpoonup> string"

text \<open>
  A run of a method: what it raised or returned, the client and the session as the
  method left them (Python mutates both in place, also on the way to an exception),
  and the requests it issued.
\<close>

record 'a run =
  outcome :: "exc + 'a"
  client_after :: Client
  session_after :: session
  calls :: "net_call list"

definition finish :: "exc + 'a \<Rightarrow> Client \<Rightarrow> session \<Rightarrow> net_call list \<Rightarrow> 'a run" where
  "finish r c s ns = \<lparr>outcome = r, client_after = c, session_after = s, calls = ns\<rparr>"

text \<open>\<^verbatim>\<open>self.id_token[k] = t\<close>, and on \<^verbatim>\<open>TypeError\<close> (no dict yet) \<^verbatim>\<open>self.id_token = {k: t}\<close>.\<close>

definition store_id_token :: "Client \<Rightarrow> string \<Rightarrow> IdToken \<Rightarrow> Client" where
  "store_id_token self k t =
     (case id_token self of
        None \<Rightarrow> self\<lparr>id_token := Some [k \<mapsto> t]\<rparr>
      | Some d \<Rightarrow> self\<lparr>id_token := Some (d(k \<mapsto> t))\<rparr>)"

text \<open>\<^verbatim>\<open>self.registration_response["redirect_uris"][0]\<close>.\<close>

definition first_redirect_uri :: "Client \<Rightarrow> exc + string" where
  "first_redirect_uri self =
     (case registration_response self of
        None \<Rightarrow> Inl (TypeError ''registration_response'')
      | Some rr \<Rightarrow>
          (case getfield (redirect_uris rr) ''redirect_uris'' of
             Inl e \<Rightarrow> Inl e
           | Inr uris \<Rightarrow> first_item uris))"

text \<open>\<^verbatim>\<open>self.registration_response["token_endpoint_auth_method"]\<close>.\<close>

definition registered_auth_method :: "Client \<Rightarrow> exc + string" where
  "registered_auth_method self =
     (case registration_response self of
        None \<Rightarrow> Inl (TypeError ''registration_response'')
      | Some rr \<Rightarrow> getfield (token_endpoint_auth_method rr) ''token_endpoint_auth_method'')"

text \<open>
  \<^verbatim>\<open>Client.create_authn_request(session, acr_value=None, **kwargs)\<close>: fresh state and
  nonce are written to the session first, then the request is assembled and handed to
  the library, whose URL becomes a redirect.
\<close>

definition create_authn_request ::
  "env \<Rightarrow> Client \<Rightarrow> session \<Rightarrow> pyval option \<Rightarrow> (string \<rightharpoonup> pyval) \<Rightarrow> redirect run" where
  "create_authn_request E self session acr_value kwargs =
     (let session1 = session(''state'' \<mapsto> rndstr E 0);
          session2 = session1(''nonce'' \<mapsto> rndstr E 1)
      in case getitem (behaviour self) ''response_type'' of
           Inl e \<Rightarrow> finish (Inl e) self session2 []
         | Inr rt \<Rightarrow>
       (case getitem (behaviour self) ''scope'' of
           Inl e \<Rightarrow> finish (Inl e) self session2 []
         | Inr sc \<Rightarrow>
       (case first_redirect_uri self of
           Inl e \<Rightarrow> finish (Inl e) self session2 []
         | Inr ruri \<Rightarrow>
       (let request_args0 = [''response_type'' \<mapsto> rt, ''scope'' \<mapsto> sc,
                             ''state'' \<mapsto> Str (rndstr E 0), ''nonce'' \<mapsto> Str (rndstr E 1),
                             ''redirect_uri'' \<mapsto> Str ruri];
            request_args1 = (case acr_value of
                               None \<Rightarrow> request_args0
                             | Some a \<Rightarrow> request_args0(''acr_values'' \<mapsto> a));
            request_args = request_args1 ++ kwargs
        in case uri_and_body E request_args of
             Inl e \<Rightarrow> finish (Inl e) self session2 []
           | Inr (url, ht_args) \<Rightarrow> finish (Inr (Redirect url ht_args)) self session2 []))))"

text \<open>
  \<^verbatim>\<open>Client.callback(response, session)\<close>, statement by statement. A block of the method
  ends in one of three ways: it raises, it returns from the method, or the method goes
  on with what the block has computed.
\<close>

datatype 'a step = Raise exc | Return cb_value | Go 'a

text \<open>
  The \<^verbatim>\<open>try\<close> statement on \<^verbatim>\<open>authresp['id_token']\<close>: no ID token in the response is
  \<^verbatim>\<open>None\<close>; otherwise its nonce is compared with the session's, a difference returns the
  \<^verbatim>\<open>OIDCError\<close> object, and the token is stored under the state.
\<close>

definition front_channel_id_token ::
  "Client \<Rightarrow> session \<Rightarrow> AuthorizationResponse \<Rightarrow> string \<Rightarrow> (IdToken option \<times> Client) step" where
  "front_channel_id_token self session authresp a_state =
     (case ar_id_token authresp of
        None \<Rightarrow> Go (None, self)
      | Some t \<Rightarrow>
     (case getitem (claims t) ''nonce'' of
        Inl e \<Rightarrow> Raise e
      | Inr t_nonce \<Rightarrow>
     (case getitem session ''nonce'' of
        Inl e \<Rightarrow> Raise e
      | Inr s_nonce \<Rightarrow>
          if t_nonce \<noteq> s_nonce
          then Return (ErrorObject (OIDCError ''Received nonce not the same as expected.''))
          else Go (Some t, store_id_token self a_state t))))"

text \<open>
  The body of \<^verbatim>\<open>if self.behaviour["response_type"] == "code"\<close>: the access token
  request with the code of the response and the registered redirect URI, client id,
  client secret and authentication method; an error response raises; the ID token of
  the answer (\<^verbatim>\<open>atresp['id_token']\<close>) replaces \<^verbatim>\<open>_id_token\<close> and is stored under the state.
  The result is what was raised or the new \<^verbatim>\<open>_id_token\<close>, the client, and the requests
  issued.
\<close>

definition code_exchange ::
  "env \<Rightarrow> Client \<Rightarrow> AuthorizationResponse \<Rightarrow> string
     \<Rightarrow> (exc + IdToken option) \<times> Client \<times> net_call list" where
  "code_exchange E self authresp a_state =
     (case getfield (ar_code authresp) ''code'' of
        Inl e \<Rightarrow> (Inl e, self, [])
      | Inr a_code \<Rightarrow>
     (case first_redirect_uri self of
        Inl e \<Rightarrow> (Inl e, self, [])
      | Inr ruri \<Rightarrow>
     (case registered_auth_method self of
        Inl e \<Rightarrow> (Inl e, self, [])
      | Inr am \<Rightarrow>
     (let req = \<lparr>tr_scope = ''openid'', tr_state = a_state, tr_code = a_code,
                 tr_redirect_uri = ruri, tr_client_id = client_id self,
                 tr_client_secret = client_secret self, tr_authn_method = am\<rparr>
      in case do_access_token_request E req of
           Inl e \<Rightarrow> (Inl e, self, [TokenRequest req])
         | Inr (ErrorResponse err) \<Rightarrow>
             (Inl (OIDCError (''Invalid response '' @ err @ ''.'')), self, [TokenRequest req])
         | Inr (Response atresp) \<Rightarrow>
             (case getfield (at_id_token atresp) ''id_token'' of
                Inl e \<Rightarrow> (Inl e, self, [TokenRequest req])
              | Inr t \<Rightarrow>
                  (Inr (Some t), store_id_token self a_state t, [TokenRequest req]))))))"

text \<open>
  The method up to and including \<^verbatim>\<open>if _id_token is None\<close>: parsing, the error response,
  the state comparison, the two blocks above. It either ends the call (\<open>Inl\<close> of the
  finished run) or hands on the state of the response, the ID token, the client and the
  requests issued so far.
\<close>

definition obtain_id_token ::
  "env \<Rightarrow> Client \<Rightarrow> string \<Rightarrow> session
     \<Rightarrow> cb_value run + string \<times> IdToken \<times> Client \<times> net_call list" where
  "obtain_id_token E self response session =
    (case parse_response E response of
       Inl e \<Rightarrow> Inl (finish (Inl e) self session [])
     | Inr (ErrorResponse err) \<Rightarrow>
         if err = ''login_required''
         then (let r = create_authn_request E self session None Map.empty
               in Inl (finish (map_sum id RedirectResp (outcome r))
                         (client_after r) (session_after r) (calls r)))
         else Inl (finish (Inr (ErrorObject (OIDCError ''Access denied''))) self session [])
     | Inr (Response authresp) \<Rightarrow>
    (case getitem session ''state'' of
       Inl e \<Rightarrow> Inl (finish (Inl e) self session [])
     | Inr s_state \<Rightarrow>
    (case getfield (ar_state authresp) ''state'' of
       Inl e \<Rightarrow> Inl (finish (Inl e) self session [])
     | Inr a_state \<Rightarrow>
    if s_state \<noteq> a_state
    then Inl (finish (Inr (ErrorObject (OIDCError ''Received state not the same as expected.'')))
                self session [])
    else
    (case front_channel_id_token self session authresp a_state of
       Raise e \<Rightarrow> Inl (finish (Inl e) self session [])
     | Return v \<Rightarrow> Inl (finish (Inr v) self session [])
     | Go (front_token, self1) \<Rightarrow>
    (case getitem (behaviour self1) ''response_type'' of
       Inl e \<Rightarrow> Inl (finish (Inl e) self1 session [])
     | Inr rt \<Rightarrow>
    (case (if rt = Str ''code'' then code_exchange E self1 authresp a_state
           else (Inr front_token, self1, [])) of
       (Inl e, self2, ns) \<Rightarrow> Inl (finish (Inl e) self2 session ns)
     | (Inr None, self2, ns) \<Rightarrow>
         Inl (finish (Inl (OIDCError ''Invalid response: no IdToken'')) self2 session ns)
     | (Inr (Some tok), self2, ns) \<Rightarrow> Inr (a_state, tok, self2, ns)))))))"

text \<open>
  The three comparisons that follow: the issuer of the ID token against the provider's,
  its nonce against the session's once more, and, unless \<^verbatim>\<open>allow_sign_alg_none\<close> is
  set, its signature algorithm against \<^verbatim>\<open>"none"\<close>. Each failure raises.
\<close>

definition verify_id_token :: "Client \<Rightarrow> session \<Rightarrow> IdToken \<Rightarrow> exc + unit" where
  \<open>verify_id_token self session tok =
    (case getitem (claims tok) ''iss'' of
       Inl e \<Rightarrow> Inl e
     | Inr t_iss \<Rightarrow>
    (case getitem (provider_info self) ''issuer'' of
       Inl e \<Rightarrow> Inl e
     | Inr p_iss \<Rightarrow>
    if t_iss \<noteq> p_iss then Inl (OIDCError ''Issuer mismatch'')
    else
    (case getitem (claims tok) ''nonce'' of
       Inl e \<Rightarrow> Inl e
     | Inr t_nonce \<Rightarrow>
    (case getitem session ''nonce'' of
       Inl e \<Rightarrow> Inl e
     | Inr s_nonce \<Rightarrow>
    if t_nonce \<noteq> s_nonce then Inl (OIDCError ''Nonce missmatch'')
    else if \<not> allow_sign_alg_none self
    then (case getitem (jws_header tok) ''alg'' of
            Inl e \<Rightarrow> Inl e
          | Inr alg \<Rightarrow>
              if alg = ''none''
              then Inl (OIDCError ''Do not allow "none" signature algorithm'')
              else Inr ())
    else Inr ()))))\<close>

text \<open>
  The rest of the method from \<^verbatim>\<open>if _id_token['iss'] != self.provider_info['issuer']\<close>
  on: the comparisons above, the user id, the userinfo request and the subject
  comparison. \<open>a_state\<close> is \<^verbatim>\<open>authresp["state"]\<close>, \<open>tok\<close> is \<^verbatim>\<open>_id_token\<close> and \<open>ns\<close> the
  requests already issued.
\<close>

definition check_id_token ::
  "env \<Rightarrow> Client \<Rightarrow> session \<Rightarrow> string \<Rightarrow> IdToken \<Rightarrow> net_call list \<Rightarrow> cb_value run" where
  "check_id_token E self session a_state tok ns =
    (case verify_id_token self session tok of
       Inl e \<Rightarrow> finish (Inl e) self session ns
     | Inr _ \<Rightarrow>
    (case getitem (claims tok) ''iss'' of
       Inl e \<Rightarrow> finish (Inl e) self session ns
     | Inr t_iss \<Rightarrow>
    (case getitem (claims tok) ''sub'' of
       Inl e \<Rightarrow> finish (Inl e) self session ns
     | Inr t_sub \<Rightarrow>
    (let user_id = t_iss @ '':'' @ t_sub;
         method = (if userinfo_request_method self \<noteq> []
                   then Some (userinfo_request_method self) else None);
         ns2 = ns @ [UserInfoRequest a_state method]
     in case do_user_info_request E a_state method of
          Inl e \<Rightarrow> finish (Inl e) self session ns2
        | Inr (ErrorResponse err) \<Rightarrow>
            finish (Inl (OIDCError (''Invalid response '' @ err @ ''.''))) self session ns2
        | Inr (Response userinfo) \<Rightarrow>
            (case getitem userinfo ''sub'' of
               Inl e \<Rightarrow> finish (Inl e) self session ns2
             | Inr u_sub \<Rightarrow>
                 if t_sub \<noteq> u_sub
                 then finish (Inl (OIDCError ''Invalid response: userid mismatch''))
                        self session ns2
                 else finish (Inr (Identity user_id userinfo)) self session ns2)))))"

definition callback :: "env \<Rightarrow> Client \<Rightarrow> string \<Rightarrow> session \<Rightarrow> cb_value run" where
  "callback E self response session =
     (case obtain_id_token E self response session of
        Inl r \<Rightarrow> r
      | Inr (a_state, tok, self2, ns) \<Rightarrow> check_id_token E self2 session a_state tok ns)"

text \<open>
  \<^verbatim>\<open>self.id_token[k]\<close> read back (\<open>None\<close> when there is no dict or no such key), and the
  attributes of a client that \<^verbatim>\<open>callback\<close> only reads.
\<close>

definition cached_id_token :: "Client \<Rightarrow> string \<Rightarrow> IdToken option" where
  "cached_id_token c k = (case id_token c of None \<Rightarrow> None | Some d \<Rightarrow> d k)"

definition same_settings :: "Client \<Rightarrow> Client \<Rightarrow> bool" where
  "same_settings c c' \<longleftrightarrow>
     allow_sign_alg_none c' = allow_sign_alg_none c \<and> provider_info c' = provider_info c
     \<and> behaviour c' = behaviour c \<and> userinfo_request_method c' = userinfo_request_method c
     \<and> registration_response c' = registration_response c \<and> client_id c' = client_id c
     \<and> client_secret c' = client_secret c"

section \<open>OIDCClients\<close>

text \<open>
  \<^verbatim>\<open>urlsplit(ruri).path\<close> of the standard library: a leading scheme (a letter followed
  by characters of \<^verbatim>\<open>scheme_chars\<close>, up to the first colon) is cut off, then a network
  location introduced by \<^verbatim>\<open>//\<close> up to the next \<^verbatim>\<open>/\<close>, \<^verbatim>\<open>?\<close> or \<^verbatim>\<open>#\<close>; the path is what
  precedes the fragment and the query. (Stripping of control characters and the
  \<^verbatim>\<open>ValueError\<close> for unbalanced brackets in the network location are left out.)
\<close>

definition ascii_letters :: string where
  "ascii_letters = ''abcdefghijklmnopqrstuvwxyzABCDEFGHIJKLMNOPQRSTUVWXYZ''"

definition scheme_chars :: string where
  "scheme_chars = ascii_letters @ ''0123456789+-.''"

definition urlsplit_path :: "string \<Rightarrow> string" where
  "urlsplit_path url =
     (let pre = takeWhile (\<lambda>c. c \<noteq> CHR '':'') url;
          url1 = (if CHR '':'' \<in> set url \<and> pre \<noteq> [] \<and> hd pre \<in> set ascii_letters
                     \<and> list_all (\<lambda>c. c \<in> set scheme_chars) pre
                  then drop (Suc (length pre)) url else url);
          url2 = (if take 2 url1 = ''//''
                  then dropWhile (\<lambda>c. c \<notin> set ''/?#'') (drop 2 url1) else url1)
      in takeWhile (\<lambda>c. c \<noteq> CHR ''#'' \<and> c \<noteq> CHR ''?'') url2)"

text \<open>
  The keyword arguments of \<^verbatim>\<open>create_client\<close>, as one entry of \<^verbatim>\<open>config.CLIENTS\<close> gives
  them: a slot per key the method knows (\<open>None\<close>: the key is absent) and the names of
  any further keys. \<^verbatim>\<open>userid\<close> is the method's named parameter.
\<close>

record kwargs =
  kw_userid :: "string option"
  kw_verify_ssl :: "bool option"
  kw_behaviour :: "(string \<rightharpoonup> pyval) option"
  kw_userinfo_request_method :: "string option"
  kw_allow :: "(string \<rightharpoonup> bool) option"
  kw_client_info :: "ClientInfo option"
  kw_srv_discovery_url :: "string option"
  kw_provider_info :: "(string \<rightharpoonup> string) option"
  kw_client_registration :: "RegistrationResponse option"
  kw_other :: "string list"

record Config =
  CLIENTS :: "(string \<times> kwargs) list"
  VERIFY_SSL :: bool

record OIDCClients =
  client :: "string \<rightharpoonup> Client"
  config :: Config
  seed :: string
  path :: "string \<rightharpoonup> string"
  base_url :: string

record 'a reg_run =
  returned :: "exc + 'a"
  registry_after :: OIDCClients
  requests :: "net_call list"

definition reg_done :: "exc + 'a \<Rightarrow> OIDCClients \<Rightarrow> net_call list \<Rightarrow> 'a reg_run" where
  "reg_done r reg ns = \<lparr>returned = r, registry_after = reg, requests = ns\<rparr>"

definition known_keys :: "string list" where
  "known_keys = [''userid'', ''verify_ssl'', ''behaviour'', ''userinfo_request_method'',
                 ''allow'', ''client_info'', ''srv_discovery_url'', ''provider_info'',
                 ''client_registration'']"

definition slot_key :: "'a option \<Rightarrow> string \<Rightarrow> string set" where
  "slot_key slot k = (case slot of None \<Rightarrow> {} | Some _ \<Rightarrow> {k})"

text \<open>\<^verbatim>\<open>set(list(kwargs.keys()))\<close>.\<close>

definition key_set :: "kwargs \<Rightarrow> string set" where
  "key_set kw =
     slot_key (kw_verify_ssl kw) ''verify_ssl'' \<union> slot_key (kw_behaviour kw) ''behaviour''
     \<union> slot_key (kw_userinfo_request_method kw) ''userinfo_request_method''
     \<union> slot_key (kw_allow kw) ''allow'' \<union> slot_key (kw_client_info kw) ''client_info''
     \<union> slot_key (kw_srv_discovery_url kw) ''srv_discovery_url''
     \<union> slot_key (kw_provider_info kw) ''provider_info''
     \<union> slot_key (kw_client_registration kw) ''client_registration''
     \<union> set (filter (\<lambda>k. k \<notin> set known_keys) (kw_other kw))"

text \<open>\<^verbatim>\<open>OIDCClients.get_path\<close>: the path of each URI without its first character.\<close>

fun get_path :: "OIDCClients \<Rightarrow> string list \<Rightarrow> string \<Rightarrow> OIDCClients" where
  "get_path self [] issuer = self"
| "get_path self (ruri # rest) issuer =
     get_path (self\<lparr>path := (path self)(drop 1 (urlsplit_path ruri) \<mapsto> issuer)\<rparr>) rest issuer"

text \<open>
  The statements that end the three branches of \<^verbatim>\<open>create_client\<close> with a \<^verbatim>\<open>client_info\<close>:
  \<^verbatim>\<open>client.register(client.provider_info["registration_endpoint"],
  **kwargs["client_info"])\<close>, then
  \<^verbatim>\<open>self.get_path(kwargs['client_info']['redirect_uris'], issuer)\<close>.
\<close>

definition register_and_get_path ::
  "env \<Rightarrow> OIDCClients \<Rightarrow> Client \<Rightarrow> kwargs \<Rightarrow> string \<Rightarrow> net_call list \<Rightarrow> Client reg_run" where
  "register_and_get_path E self cl kw issuer ns =
     (case getitem (provider_info cl) ''registration_endpoint'' of
        Inl e \<Rightarrow> reg_done (Inl e) self ns
      | Inr endpoint \<Rightarrow>
     (case getfield (kw_client_info kw) ''client_info'' of
        Inl e \<Rightarrow> reg_done (Inl e) self ns
      | Inr ci \<Rightarrow>
     (case register E cl endpoint ci of
        Inl e \<Rightarrow> reg_done (Inl e) self (ns @ [RegistrationRequest endpoint ci])
      | Inr cl' \<Rightarrow>
     (case getfield (ci_redirect_uris ci) ''redirect_uris'' of
        Inl e \<Rightarrow> reg_done (Inl e) self (ns @ [RegistrationRequest endpoint ci])
      | Inr uris \<Rightarrow>
          reg_done (Inr cl') (get_path self uris issuer)
            (ns @ [RegistrationRequest endpoint ci])))))"

text \<open>
  The statements that end the two branches with a \<^verbatim>\<open>client_registration\<close>:
  \<^verbatim>\<open>client.store_registration_info(RegistrationResponse(**kwargs["client_registration"]))\<close>,
  then \<^verbatim>\<open>self.get_path(kwargs['client_info']['redirect_uris'], issuer)\<close>. The second
  argument of \<^verbatim>\<open>get_path\<close> is a key that the branch has read before.
\<close>

definition store_and_get_path ::
  "env \<Rightarrow> OIDCClients \<Rightarrow> Client \<Rightarrow> kwargs \<Rightarrow> string \<Rightarrow> net_call list \<Rightarrow> Client reg_run" where
  "store_and_get_path E self cl kw issuer ns =
     (case getfield (kw_client_registration kw) ''client_registration'' of
        Inl e \<Rightarrow> reg_done (Inl e) self ns
      | Inr reg \<Rightarrow>
     (case store_registration_info E cl reg of
        Inl e \<Rightarrow> reg_done (Inl e) self ns
      | Inr cl' \<Rightarrow>
     (case getfield (kw_client_info kw) ''client_info'' of
        Inl e \<Rightarrow> reg_done (Inl e) self ns
      | Inr ci \<Rightarrow>
     (case getfield (ci_redirect_uris ci) ''redirect_uris'' of
        Inl e \<Rightarrow> reg_done (Inl e) self ns
      | Inr uris \<Rightarrow> reg_done (Inr cl') (get_path self uris issuer) ns))))"

text \<open>
  \<^verbatim>\<open>client.handle_provider_config(ProviderConfigurationResponse(**kwargs["provider_info"]),
  kwargs["provider_info"]["issuer"])\<close> of the two branches with a \<^verbatim>\<open>provider_info\<close>; the
  issuer read here is the one the branch passes to \<^verbatim>\<open>get_path\<close> later.
\<close>

definition supplied_provider_config ::
  "env \<Rightarrow> Client \<Rightarrow> kwargs \<Rightarrow> exc + string \<times> Client" where
  "supplied_provider_config E cl kw =
     (case getfield (kw_provider_info kw) ''provider_info'' of
        Inl e \<Rightarrow> Inl e
      | Inr pinfo \<Rightarrow>
     (case getitem pinfo ''issuer'' of
        Inl e \<Rightarrow> Inl e
      | Inr issuer \<Rightarrow>
     (case handle_provider_config E cl pinfo issuer of
        Inl e \<Rightarrow> Inl e
      | Inr cl' \<Rightarrow> Inr (issuer, cl'))))"

text \<open>
  \<^verbatim>\<open>_key_set\<close> of \<^verbatim>\<open>create_client\<close> when the election starts: the keys of the keyword
  arguments, from which \<^verbatim>\<open>verify_ssl\<close>, \<^verbatim>\<open>userinfo_request_method\<close> and \<^verbatim>\<open>allow\<close> have
  been discarded where they were present, and \<^verbatim>\<open>behaviour\<close> in any case.
\<close>

definition remaining_keys :: "kwargs \<Rightarrow> string set" where
  "remaining_keys kw =
     (let ks0 = key_set kw;
          ks1 = (case kw_verify_ssl kw of None \<Rightarrow> ks0 | Some _ \<Rightarrow> ks0 - {''verify_ssl''});
          ks2 = (case kw_userinfo_request_method kw of
                   None \<Rightarrow> ks1 | Some _ \<Rightarrow> ks1 - {''userinfo_request_method''});
          ks3 = ks2 - {''behaviour''}
      in case kw_allow kw of None \<Rightarrow> ks3 | Some _ \<Rightarrow> ks3 - {''allow''})"

text \<open>
  The client instance \<^verbatim>\<open>create_client\<close> works on: constructed with the \<^verbatim>\<open>behaviour\<close> of
  the keyword arguments and \<^verbatim>\<open>config.VERIFY_SSL\<close>, then given the
  \<^verbatim>\<open>userinfo_request_method\<close> and the \<^verbatim>\<open>allow\<close> attribute where the keyword arguments have
  them.
\<close>

definition new_client :: "env \<Rightarrow> OIDCClients \<Rightarrow> kwargs \<Rightarrow> (string \<rightharpoonup> pyval) \<Rightarrow> Client" where
  "new_client E self kw b =
     (let cl0 = Client_init (oic_Client_init E (VERIFY_SSL (config self))) (Some b);
          cl1 = (case kw_userinfo_request_method kw of
                   None \<Rightarrow> cl0 | Some m \<Rightarrow> cl0\<lparr>userinfo_request_method := m\<rparr>)
      in case kw_allow kw of None \<Rightarrow> cl1 | Some a \<Rightarrow> cl1\<lparr>allow := a\<rparr>)"

text \<open>
  \<^verbatim>\<open>OIDCClients.create_client(userid="", **kwargs)\<close>. A \<^verbatim>\<open>verify_ssl\<close> among the keyword
  arguments reaches the constructor twice, which is a \<^verbatim>\<open>TypeError\<close> of the call.
\<close>

definition create_client :: "env \<Rightarrow> OIDCClients \<Rightarrow> kwargs \<Rightarrow> Client reg_run" where
  "create_client E self kw =
    (let userid = (case kw_userid kw of None \<Rightarrow> [] | Some u \<Rightarrow> u)
     in
     case getfield (kw_behaviour kw) ''behaviour'' of
       Inl e \<Rightarrow> reg_done (Inl e) self []
     | Inr b \<Rightarrow>
     if kw_verify_ssl kw \<noteq> None then reg_done (Inl (TypeError ''verify_ssl'')) self []
     else
     (let cl2 = new_client E self kw b;
          ks = remaining_keys kw
      in
      if ks = {''client_info''} then
        (if userid = []
         then reg_done (Inl (MissingAttribute ''Missing userid specification'')) self []
         else
         (case discovery_query E userid of
            Inl e \<Rightarrow> reg_done (Inl e) self [WebFinger userid]
          | Inr issuer \<Rightarrow>
         (case provider_config E cl2 issuer of
            Inl e \<Rightarrow> reg_done (Inl e) self [WebFinger userid, ProviderConfigRequest issuer]
          | Inr (_, cl3) \<Rightarrow>
              register_and_get_path E self cl3 kw issuer
                [WebFinger userid, ProviderConfigRequest issuer])))
      else if ks = {''client_info'', ''srv_discovery_url''} then
        (case getfield (kw_srv_discovery_url kw) ''srv_discovery_url'' of
           Inl e \<Rightarrow> reg_done (Inl e) self []
         | Inr url \<Rightarrow>
        (case provider_config E cl2 url of
           Inl e \<Rightarrow> reg_done (Inl e) self [ProviderConfigRequest url]
         | Inr (_, cl3) \<Rightarrow>
             register_and_get_path E self cl3 kw url [ProviderConfigRequest url]))
      else if ks = {''provider_info'', ''client_info''} then
        (case supplied_provider_config E cl2 kw of
           Inl e \<Rightarrow> reg_done (Inl e) self []
         | Inr (issuer, cl3) \<Rightarrow> register_and_get_path E self cl3 kw issuer [])
      else if ks = {''provider_info'', ''client_registration''} then
        (case supplied_provider_config E cl2 kw of
           Inl e \<Rightarrow> reg_done (Inl e) self []
         | Inr (issuer, cl3) \<Rightarrow> store_and_get_path E self cl3 kw issuer [])
      else if ks = {''srv_discovery_url'', ''client_registration''} then
        (case getfield (kw_srv_discovery_url kw) ''srv_discovery_url'' of
           Inl e \<Rightarrow> reg_done (Inl e) self []
         | Inr url \<Rightarrow>
        (case provider_config E cl2 url of
           Inl e \<Rightarrow> reg_done (Inl e) self [ProviderConfigRequest url]
         | Inr (_, cl3) \<Rightarrow> store_and_get_path E self cl3 kw url [ProviderConfigRequest url]))
      else reg_done (Inl (PyException ''Configuration error ?'')) self []))"

text \<open>
  \<^verbatim>\<open>hashlib\<close>: a hash object is the bytes it has absorbed; \<^verbatim>\<open>update\<close> appends, and
  \<^verbatim>\<open>hexdigest\<close> is the library's digest of them.
\<close>

definition hashlib_sha256 :: "string \<Rightarrow> string" where
  "hashlib_sha256 data = data"

definition hash_update :: "string \<Rightarrow> string \<Rightarrow> string" where
  "hash_update h data = h @ data"

definition hexdigest :: "env \<Rightarrow> string \<Rightarrow> string" where
  "hexdigest E h = sha256_hexdigest E h"

text \<open>
  \<^verbatim>\<open>[u.format(base=self.base_url, iss=h.hexdigest()) for u in base_urls]\<close>: the first
  template that \<^verbatim>\<open>format\<close> rejects ends the comprehension with its exception.
\<close>

fun format_all :: "env \<Rightarrow> string \<Rightarrow> string \<Rightarrow> string list \<Rightarrow> exc + string list" where
  "format_all E base iss [] = Inr []"
| "format_all E base iss (u # us) =
     (case str_format E u base iss of
        Inl e \<Rightarrow> Inl e
      | Inr v \<Rightarrow>
          (case format_all E base iss us of
             Inl e \<Rightarrow> Inl e
           | Inr vs \<Rightarrow> Inr (v # vs)))"

text \<open>\<^verbatim>\<open>OIDCClients.dynamic_client(userid)\<close>.\<close>

definition dynamic_client :: "env \<Rightarrow> OIDCClients \<Rightarrow> string \<Rightarrow> Client reg_run" where
  "dynamic_client E self userid =
    (let cl = Client_init (oic_Client_init E (VERIFY_SSL (config self))) None
     in
     case discovery_query E userid of
       Inl e \<Rightarrow> reg_done (Inl e) self [WebFinger userid]
     | Inr issuer \<Rightarrow>
    (case client self issuer of
       Some cached \<Rightarrow> reg_done (Inr cached) self [WebFinger userid]
     | None \<Rightarrow>
    (let ns = [WebFinger userid, ProviderConfigRequest issuer]
     in
     case provider_config E cl issuer of
       Inl e \<Rightarrow> reg_done (Inl e) self ns
     | Inr (pcr, cl1) \<Rightarrow>
    (case getitem (map_of (CLIENTS (config self))) [] of
       Inl e \<Rightarrow> reg_done (Inl e) self ns
     | Inr profile \<Rightarrow>
    (case getfield (kw_client_info profile) ''client_info'' of
       Inl e \<Rightarrow> reg_done (Inl e) self ns
     | Inr cinfo \<Rightarrow>
    (let h = hash_update (hashlib_sha256 (seed self)) issuer
     in
     case getfield (ci_redirect_uris cinfo) ''redirect_uris'' of
       Inl e \<Rightarrow> reg_done (Inl e) self ns
     | Inr base_urls \<Rightarrow>
    (case format_all E (base_url self) (hexdigest E h) base_urls of
       Inl e \<Rightarrow> reg_done (Inl e) self ns
     | Inr uris \<Rightarrow>
    (let reg_args = cinfo\<lparr>ci_redirect_uris := Some uris\<rparr>;
         self1 = get_path self uris issuer
     in
     case getitem pcr ''registration_endpoint'' of
       Inl e \<Rightarrow> reg_done (Inl e) self1 ns
     | Inr endpoint \<Rightarrow>
    (case register E cl1 endpoint reg_args of
       Inl e \<Rightarrow> reg_done (Inl e) self1 (ns @ [RegistrationRequest endpoint reg_args])
     | Inr cl2 \<Rightarrow>
    (let cl3 = (case kw_behaviour profile of
                  None \<Rightarrow> cl2
                | Some b \<Rightarrow> cl2\<lparr>behaviour := behaviour cl2 ++ b\<rparr>)
     in reg_done (Inr cl3) (self1\<lparr>client := (client self1)(issuer \<mapsto> cl3)\<rparr>)
          (ns @ [RegistrationRequest endpoint reg_args])))))))))))"

text \<open>\<^verbatim>\<open>OIDCClients.__getitem__(item)\<close>.\<close>

definition getitem_client :: "env \<Rightarrow> OIDCClients \<Rightarrow> string \<Rightarrow> Client reg_run" where
  "getitem_client E self item =
     (case client self item of
        Some c \<Rightarrow> reg_done (Inr c) self []
      | None \<Rightarrow> dynamic_client E self item)"

text \<open>
  The loop of \<^verbatim>\<open>OIDCClients.__init__\<close> over \<^verbatim>\<open>config.CLIENTS.items()\<close>: the \<^verbatim>\<open>""\<close>
  profile is skipped, every other one is created and stored under its key; an exception
  of \<^verbatim>\<open>create_client\<close> ends the construction.
\<close>

fun init_clients ::
  "env \<Rightarrow> OIDCClients \<Rightarrow> (string \<times> kwargs) list \<Rightarrow> net_call list \<Rightarrow> unit reg_run" where
  "init_clients E self [] ns = reg_done (Inr ()) self ns"
| "init_clients E self ((key, val) # rest) ns =
     (if key = [] then init_clients E self rest ns
      else
        (let r = create_client E self val
         in case returned r of
              Inl e \<Rightarrow> reg_done (Inl e) (registry_after r) (ns @ requests r)
            | Inr cl \<Rightarrow>
                init_clients E
                  ((registry_after r)\<lparr>client := (client (registry_after r))(key \<mapsto> cl)\<rparr>)
                  rest (ns @ requests r)))"

text \<open>\<^verbatim>\<open>OIDCClients.__init__(config, base_url, seed='')\<close>.\<close>

definition OIDCClients_init :: "env \<Rightarrow> Config \<Rightarrow> string \<Rightarrow> string \<Rightarrow> unit reg_run" where
  "OIDCClients_init E cfg base seed_arg =
     init_clients E
       \<lparr>client = Map.empty, config = cfg,
        seed = (if seed_arg \<noteq> [] then seed_arg else rndstr E 0),
        path = Map.empty, base_url = base\<rparr>
       (CLIENTS cfg) []"

text \<open>No key of the keyword arguments beyond the ones \<^verbatim>\<open>create_client\<close> knows.\<close>

definition no_other_keys :: "kwargs \<Rightarrow> bool" where
  "no_other_keys kw = list_all (\<lambda>k. k \<in> set known_keys) (kw_other kw)"

section \<open>An example deployment\<close>

text \<open>
  One relying party \<^verbatim>\<open>rp.example\<close> registered at the provider \<^verbatim>\<open>op.example\<close>, with a
  library whose answers are fixed, used to run the definitions on concrete inputs.
\<close>

definition example_token :: "string \<Rightarrow> string \<Rightarrow> string \<Rightarrow> string \<Rightarrow> IdToken" where
  "example_token iss sub nonce alg =
     \<lparr>claims = [''iss'' \<mapsto> iss, ''sub'' \<mapsto> sub, ''nonce'' \<mapsto> nonce],
      jws_header = [''alg'' \<mapsto> alg]\<rparr>"

definition example_provider_info :: "string \<rightharpoonup> string" where
  "example_provider_info =
     [''issuer'' \<mapsto> ''https://op.example'',
      ''registration_endpoint'' \<mapsto> ''https://op.example/registration'']"

definition example_client :: "string \<Rightarrow> bool \<Rightarrow> Client" where
  "example_client response_type allow_none =
     \<lparr>client_id = Some ''rp1'', client_secret = Some ''hush'',
      behaviour = [''response_type'' \<mapsto> Str response_type, ''scope'' \<mapsto> StrList [''openid'']],
      registration_response =
        Some \<lparr>redirect_uris = Some [''https://rp.example/cb''],
              token_endpoint_auth_method = Some ''client_secret_basic''\<rparr>,
      provider_info = example_provider_info,
      id_token = None, allow_sign_alg_none = allow_none, userinfo_request_method = [],
      allow = Map.empty, verify_ssl = True\<rparr>"

definition example_session :: session where
  "example_session = [''state'' \<mapsto> ''S2'', ''nonce'' \<mapsto> ''N1'']"

definition example_authresp :: "string \<Rightarrow> IdToken option \<Rightarrow> AuthorizationResponse" where
  "example_authresp st t = \<lparr>ar_state = Some st, ar_code = Some ''c0de'', ar_id_token = t\<rparr>"

fun example_format :: "string \<Rightarrow> string \<Rightarrow> string \<Rightarrow> string" where
  "example_format [] b i = []"
| "example_format (c # cs) b i =
     (if take 6 (c # cs) = ''{base}'' then b @ example_format (drop 5 cs) b i
      else if take 5 (c # cs) = ''{iss}'' then i @ example_format (drop 4 cs) b i
      else c # example_format cs b i)"

definition example_env ::
  "AuthorizationResponse reply \<Rightarrow> AccessTokenResponse reply \<Rightarrow> (string \<rightharpoonup> string) reply \<Rightarrow> env" where
  "example_env authz token userinfo =
     \<lparr>parse_response = (\<lambda>_. Inr authz),
      do_access_token_request = (\<lambda>_. Inr token),
      do_user_info_request = (\<lambda>_ _. Inr userinfo),
      uri_and_body = (\<lambda>_. Inr (''https://op.example/authorization'', [])),
      rndstr = (\<lambda>i. if i = 0 then ''R0'' else ''R1''),
      oic_Client_init = (\<lambda>v. \<lparr>client_id = None, client_secret = None, behaviour = Map.empty,
                               registration_response = None, provider_info = Map.empty,
                               id_token = None, allow_sign_alg_none = False,
                               userinfo_request_method = [], allow = Map.empty,
                               verify_ssl = v\<rparr>),
      discovery_query = (\<lambda>_. Inr ''https://op.example''),
      provider_config = (\<lambda>c _. Inr (example_provider_info,
                                      c\<lparr>provider_info := example_provider_info\<rparr>)),
      register = (\<lambda>c _ ci. Inr (c\<lparr>client_id := Some ''rp1'', client_secret := Some ''hush'',
                                   registration_response :=
                                     Some \<lparr>redirect_uris = ci_redirect_uris ci,
                                           token_endpoint_auth_method =
                                             Some ''client_secret_basic''\<rparr>\<rparr>)),
      handle_provider_config = (\<lambda>c p _. Inr (c\<lparr>provider_info := p\<rparr>)),
      store_registration_info = (\<lambda>c r. Inr (c\<lparr>registration_response := Some r\<rparr>)),
      sha256_hexdigest = (\<lambda>data. ''sha256:'' @ data),
      str_format = (\<lambda>u b i. Inr (example_format u b i))\<rparr>"

definition example_client_info :: ClientInfo where
  "example_client_info =
     \<lparr>ci_redirect_uris = Some [''https://rp.example/cb''], ci_other = []\<rparr>"

definition example_registration :: RegistrationResponse where
  "example_registration =
     \<lparr>redirect_uris = Some [''https://rp.example/cb''],
      token_endpoint_auth_method = Some ''client_secret_basic''\<rparr>"

definition example_kwargs :: kwargs where
  "example_kwargs =
     \<lparr>kw_userid = None, kw_verify_ssl = None,
      kw_behaviour = Some [''response_type'' \<mapsto> Str ''code'', ''scope'' \<mapsto> StrList [''openid'']],
      kw_userinfo_request_method = None, kw_allow = None, kw_client_info = None,
      kw_srv_discovery_url = None, kw_provider_info = None, kw_client_registration = None,
      kw_other = []\<rparr>"

definition example_config :: "(string \<times> kwargs) list \<Rightarrow> Config" where
  "example_config profiles = \<lparr>CLIENTS = profiles, VERIFY_SSL = True\<rparr>"

definition example_registry :: "(string \<times> kwargs) list \<Rightarrow> OIDCClients" where
  "example_registry profiles =
     \<lparr>client = Map.empty, config = example_config profiles, seed = ''5eed'',
      path = Map.empty, base_url = ''https://rp.example''\<rparr>"

definition example_library :: env where
  "example_library =
     example_env (ErrorResponse ''unused'') (ErrorResponse ''unused'') (ErrorResponse ''unused'')"

section \<open>Facts about the building blocks\<close>

lemma getitem_Inr [simp]: "getitem d k = Inr v \<longleftrightarrow> d k = Some v"
  by (simp add: getitem_def split: option.splits)

lemma getitem_Inl [simp]: "getitem d k = Inl e \<longleftrightarrow> d k = None \<and> e = KeyError k"
  by (auto simp add: getitem_def split: option.splits)

lemma getfield_Inr [simp]: "getfield x k = Inr v \<longleftrightarrow> x = Some v"
  by (simp add: getfield_def split: option.splits)

lemma getfield_Inl [simp]: "getfield x k = Inl e \<longleftrightarrow> x = None \<and> e = KeyError k"
  by (auto simp add: getfield_def split: option.splits)

lemma getitem_Some [simp]: "d k = Some v \<Longrightarrow> getitem d k = Inr v"
  by simp

lemma getitem_None [simp]: "d k = None \<Longrightarrow> getitem d k = Inl (KeyError k)"
  by simp

lemma getfield_Some [simp]: "getfield (Some v) k = Inr v"
  by simp

lemma getfield_None [simp]: "getfield None k = Inl (KeyError k)"
  by simp

lemma store_id_token_fields [simp]:
  "allow_sign_alg_none (store_id_token c k t) = allow_sign_alg_none c"
  "provider_info (store_id_token c k t) = provider_info c"
  "behaviour (store_id_token c k t) = behaviour c"
  "userinfo_request_method (store_id_token c k t) = userinfo_request_method c"
  "registration_response (store_id_token c k t) = registration_response c"
  "client_id (store_id_token c k t) = client_id c"
  "client_secret (store_id_token c k t) = client_secret c"
  by (simp_all add: store_id_token_def split: option.splits)

lemma cached_store [simp]: "cached_id_token (store_id_token c k t) k = Some t"
  by (simp add: store_id_token_def cached_id_token_def split: option.splits)

lemma first_redirect_uri_store [simp]:
  "first_redirect_uri (store_id_token c k t) = first_redirect_uri c"
  by (simp add: first_redirect_uri_def)

lemma registered_auth_method_store [simp]:
  "registered_auth_method (store_id_token c k t) = registered_auth_method c"
  by (simp add: registered_auth_method_def)

lemma same_settings_refl [simp]: "same_settings c c"
  by (simp add: same_settings_def)

lemma same_settings_store [simp]: "same_settings c (store_id_token c k t)"
  by (simp add: same_settings_def)

lemma same_settings_trans: "same_settings a b \<Longrightarrow> same_settings b c \<Longrightarrow> same_settings a c"
  by (simp add: same_settings_def)

lemma same_settings_uris:
  "same_settings a b \<Longrightarrow> first_redirect_uri b = first_redirect_uri a"
  "same_settings a b \<Longrightarrow> registered_auth_method b = registered_auth_method a"
  by (simp_all add: same_settings_def first_redirect_uri_def registered_auth_method_def)

lemma front_channel_Go:
  assumes "front_channel_id_token self session authresp st = Go (ft, self1)"
  shows "same_settings self self1"
    and "ft = ar_id_token authresp"
    and "ft = Some t \<Longrightarrow> claims t ''nonce'' = session ''nonce'' \<and> session ''nonce'' \<noteq> None"
    and "ft = Some t \<Longrightarrow> cached_id_token self1 st = Some t"
    and "ft = None \<Longrightarrow> self1 = self"
  using assms unfolding front_channel_id_token_def
  by (auto split: option.splits sum.splits if_splits)


lemma code_exchange_Inr:
  assumes "code_exchange E self authresp st = (Inr x, self2, ns)"
  shows "\<exists>t. x = Some t \<and> same_settings self self2 \<and> cached_id_token self2 st = Some t"
  using assms unfolding code_exchange_def
  by (auto simp add: Let_def split: sum.splits reply.splits) metis

lemma code_exchange_same:
  assumes "code_exchange E self authresp st = (x, self2, ns)"
  shows "same_settings self self2"
  using assms unfolding code_exchange_def
  by (auto simp add: Let_def split: sum.splits reply.splits)

lemma code_exchange_calls:
  assumes "code_exchange E self authresp st = (x, self2, ns)"
  shows "ns = [] \<or>
         (\<exists>a_code ruri am. ar_code authresp = Some a_code \<and> first_redirect_uri self = Inr ruri
            \<and> registered_auth_method self = Inr am
            \<and> ns = [TokenRequest \<lparr>tr_scope = ''openid'', tr_state = st, tr_code = a_code,
                        tr_redirect_uri = ruri, tr_client_id = client_id self,
                        tr_client_secret = client_secret self, tr_authn_method = am\<rparr>])"
  using assms unfolding code_exchange_def
  by (auto simp add: Let_def split: sum.splits reply.splits)

lemma code_exchange_issues:
  assumes "ar_code authresp = Some a_code" and "first_redirect_uri self = Inr ruri"
    and "registered_auth_method self = Inr am"
  shows "snd (snd (code_exchange E self authresp st)) =
           [TokenRequest \<lparr>tr_scope = ''openid'', tr_state = st, tr_code = a_code,
              tr_redirect_uri = ruri, tr_client_id = client_id self,
              tr_client_secret = client_secret self, tr_authn_method = am\<rparr>]"
  using assms unfolding code_exchange_def
  by (simp add: Let_def split: sum.splits reply.splits)

lemma obtain_id_token_InrD:
  assumes "obtain_id_token E self response session = Inr (st, tok, self2, ns)"
  shows "\<exists>authresp ft self1 rt.
           parse_response E response = Inr (Response authresp)
           \<and> session ''state'' = Some st \<and> ar_state authresp = Some st
           \<and> front_channel_id_token self session authresp st = Go (ft, self1)
           \<and> behaviour self1 ''response_type'' = Some rt
           \<and> (if rt = Str ''code'' then code_exchange E self1 authresp st
               else (Inr ft, self1, [])) = (Inr (Some tok), self2, ns)"
  using assms unfolding obtain_id_token_def
  by (auto simp add: Let_def
      split: option.splits sum.splits reply.splits if_splits step.splits prod.splits)


lemma obtain_id_token_Inr:
  assumes "obtain_id_token E self response session = Inr (st, tok, self2, ns)"
  shows "same_settings self self2" and "cached_id_token self2 st = Some tok"
proof -
  from obtain_id_token_InrD [OF assms] obtain authresp ft self1 rt where
    fc: "front_channel_id_token self session authresp st = Go (ft, self1)"
    and rest: "(if rt = Str ''code'' then code_exchange E self1 authresp st
                else (Inr ft, self1, [])) = (Inr (Some tok), self2, ns)"
    by blast
  have s1: "same_settings self self1" using fc by (rule front_channel_Go)
  show "same_settings self self2" and "cached_id_token self2 st = Some tok"
    using rest s1 front_channel_Go(4) [OF fc] code_exchange_Inr [of E self1 authresp st]
    by (auto split: if_splits intro: same_settings_trans)
qed


lemma verify_id_token_Inr:
  "verify_id_token self session tok = Inr u \<longleftrightarrow>
     (\<exists>i n. claims tok ''iss'' = Some i \<and> provider_info self ''issuer'' = Some i
        \<and> claims tok ''nonce'' = Some n \<and> session ''nonce'' = Some n
        \<and> (allow_sign_alg_none self
            \<or> (\<exists>a. jws_header tok ''alg'' = Some a \<and> a \<noteq> ''none'')))"
  unfolding verify_id_token_def
  by (auto split: sum.splits)

lemma verify_id_token_same:
  "same_settings c c' \<Longrightarrow> verify_id_token c' session tok = verify_id_token c session tok"
  by (simp add: verify_id_token_def same_settings_def cong: if_cong sum.case_cong)

lemma check_id_token_client [simp]:
  "client_after (check_id_token E self session st tok ns) = self"
  unfolding check_id_token_def
  by (simp add: finish_def Let_def split: sum.splits reply.splits)

lemma check_id_token_session [simp]:
  "session_after (check_id_token E self session st tok ns) = session"
  unfolding check_id_token_def
  by (simp add: finish_def Let_def split: sum.splits reply.splits)

lemma check_id_token_calls:
  "calls (check_id_token E self session st tok ns) = ns
   \<or> calls (check_id_token E self session st tok ns) =
       ns @ [UserInfoRequest st (if userinfo_request_method self \<noteq> []
                                 then Some (userinfo_request_method self) else None)]"
  unfolding check_id_token_def
  by (simp add: finish_def Let_def split: sum.splits reply.splits)


lemma check_id_token_accepts:
  assumes "outcome (check_id_token E self session st tok ns) = Inr (Identity uid info)"
  shows "verify_id_token self session tok = Inr ()"
  using assms unfolding check_id_token_def
  by (auto simp add: finish_def Let_def split: sum.splits reply.splits if_splits)

lemma check_id_token_raises:
  assumes "verify_id_token self session tok = Inl e"
  shows "check_id_token E self session st tok ns = finish (Inl e) self session ns"
  using assms by (simp add: check_id_token_def)

lemma create_authn_request_calls [simp]:
  "calls (create_authn_request E self session acr kw) = []"
  unfolding create_authn_request_def
  by (simp add: finish_def Let_def split: sum.splits prod.splits)

lemma obtain_id_token_Inl_calls:
  assumes "obtain_id_token E self response session = Inl r" and "calls r \<noteq> []"
  shows "\<exists>authresp st ft self1 x self2.
           parse_response E response = Inr (Response authresp)
           \<and> session ''state'' = Some st \<and> ar_state authresp = Some st
           \<and> front_channel_id_token self session authresp st = Go (ft, self1)
           \<and> behaviour self1 ''response_type'' = Some (Str ''code'')
           \<and> code_exchange E self1 authresp st = (x, self2, calls r)"
  using assms unfolding obtain_id_token_def
  by (auto simp add: finish_def Let_def
      split: option.splits sum.splits reply.splits if_splits step.splits prod.splits)

lemma token_request_of_exchange:
  assumes fc: "front_channel_id_token self session authresp st = Go (ft, self1)"
    and rt: "behaviour self1 ''response_type'' = Some (Str ''code'')"
    and st: "session ''state'' = Some st"
    and ex: "code_exchange E self1 authresp st = (x, self2, ns)"
    and mem: "n \<in> set ns"
  shows "\<exists>req. n = TokenRequest req \<and> behaviour self ''response_type'' = Some (Str ''code'')
           \<and> tr_scope req = ''openid'' \<and> session ''state'' = Some (tr_state req)
           \<and> first_redirect_uri self = Inr (tr_redirect_uri req)
           \<and> tr_client_id req = client_id self \<and> tr_client_secret req = client_secret self
           \<and> registered_auth_method self = Inr (tr_authn_method req)"
proof -
  have ss: "same_settings self self1" using fc by (rule front_channel_Go)
  from code_exchange_calls [OF ex] mem obtain a_code ruri am where
    "first_redirect_uri self1 = Inr ruri" "registered_auth_method self1 = Inr am"
    "n = TokenRequest \<lparr>tr_scope = ''openid'', tr_state = st, tr_code = a_code,
            tr_redirect_uri = ruri, tr_client_id = client_id self1,
            tr_client_secret = client_secret self1, tr_authn_method = am\<rparr>"
    by auto
  with ss rt st same_settings_uris [OF ss] show ?thesis
    by (simp add: same_settings_def)
qed

lemma callback_calls:
  assumes "n \<in> set (calls (callback E self response session))"
  shows "(\<exists>m. n = UserInfoRequest m (if userinfo_request_method self \<noteq> []
                                 then Some (userinfo_request_method self) else None))
       \<or> (\<exists>req. n = TokenRequest req \<and> behaviour self ''response_type'' = Some (Str ''code'')
           \<and> tr_scope req = ''openid'' \<and> session ''state'' = Some (tr_state req)
           \<and> first_redirect_uri self = Inr (tr_redirect_uri req)
           \<and> tr_client_id req = client_id self \<and> tr_client_secret req = client_secret self
           \<and> registered_auth_method self = Inr (tr_authn_method req))"
proof (cases "obtain_id_token E self response session")
  case (Inl r)
  with assms have mem: "n \<in> set (calls r)" by (simp add: callback_def)
  then have "calls r \<noteq> []" by auto
  from obtain_id_token_Inl_calls [OF Inl this] mem token_request_of_exchange
  show ?thesis by blast
next
  case (Inr x)
  then obtain st tok self' ns where
    ob: "obtain_id_token E self response session = Inr (st, tok, self', ns)"
    by (cases x) auto
  have ss: "same_settings self self'" using ob by (rule obtain_id_token_Inr)
  from assms ob have "n \<in> set (calls (check_id_token E self' session st tok ns))"
    by (simp add: callback_def)
  with check_id_token_calls [of E self' session st tok ns]
  consider (old) "n \<in> set ns"
    | (new) "n = UserInfoRequest st (if userinfo_request_method self' \<noteq> []
                                 then Some (userinfo_request_method self') else None)"
    by auto
  then show ?thesis
  proof cases
    case old
    from obtain_id_token_InrD [OF ob] obtain authresp ft self1 rt where
      d: "session ''state'' = Some st"
         "front_channel_id_token self session authresp st = Go (ft, self1)"
         "behaviour self1 ''response_type'' = Some rt"
         "(if rt = Str ''code'' then code_exchange E self1 authresp st
               else (Inr ft, self1, [])) = (Inr (Some tok), self', ns)"
      by blast
    with old have "rt = Str ''code''" by (auto split: if_splits)
    with d have "behaviour self1 ''response_type'' = Some (Str ''code'')"
      and "code_exchange E self1 authresp st = (Inr (Some tok), self', ns)"
      by simp_all
    from token_request_of_exchange [OF d(2) this(1) d(1) this(2) old]
    show ?thesis by blast
  next
    case new
    with ss show ?thesis by (simp add: same_settings_def)
  qed
qed

lemmas callback_defs =
  callback_def obtain_id_token_def front_channel_id_token_def code_exchange_def
  check_id_token_def verify_id_token_def finish_def first_redirect_uri_def
  registered_auth_method_def first_item_def store_id_token_def Let_def

lemmas example_defs =
  example_env_def example_authresp_def example_client_def example_session_def
  example_token_def example_provider_info_def


text \<open>The election of \<^verbatim>\<open>create_client\<close> by its key set, in terms of the slots.\<close>

lemma election_cases:
  fixes ci sd pi cr :: 'a and Other :: "'a set"
  assumes M: "\<And>k. k \<in> R \<longleftrightarrow>
                 (CI \<and> k = ci) \<or> (SD \<and> k = sd) \<or> (PI \<and> k = pi) \<or> (CR \<and> k = cr)
                 \<or> k \<in> Other"
    and d: "ci \<noteq> sd" "ci \<noteq> pi" "ci \<noteq> cr" "sd \<noteq> pi" "sd \<noteq> cr" "pi \<noteq> cr"
    and o: "ci \<notin> Other" "sd \<notin> Other" "pi \<notin> Other" "cr \<notin> Other"
  shows "R = {ci} \<longleftrightarrow> CI \<and> \<not> SD \<and> \<not> PI \<and> \<not> CR \<and> Other = {}"
    and "R = {ci, sd} \<longleftrightarrow> CI \<and> SD \<and> \<not> PI \<and> \<not> CR \<and> Other = {}"
    and "R = {pi, ci} \<longleftrightarrow> CI \<and> \<not> SD \<and> PI \<and> \<not> CR \<and> Other = {}"
    and "R = {pi, cr} \<longleftrightarrow> \<not> CI \<and> \<not> SD \<and> PI \<and> CR \<and> Other = {}"
    and "R = {sd, cr} \<longleftrightarrow> \<not> CI \<and> SD \<and> \<not> PI \<and> CR \<and> Other = {}"
proof -
  have f: "ci \<in> R \<longleftrightarrow> CI" "sd \<in> R \<longleftrightarrow> SD" "pi \<in> R \<longleftrightarrow> PI" "cr \<in> R \<longleftrightarrow> CR"
    using d o by (simp_all add: M) 
  have sub: "Other \<subseteq> R" using M by blast
  have eq: "R = (if CI then {ci} else {}) \<union> (if SD then {sd} else {})
                \<union> (if PI then {pi} else {}) \<union> (if CR then {cr} else {}) \<union> Other"
    by (rule set_eqI) (simp add: M)
  have emp: "Other = {}" if "R \<subseteq> {ci, sd, pi, cr}"
    using that sub o by blast
  show "R = {ci} \<longleftrightarrow> CI \<and> \<not> SD \<and> \<not> PI \<and> \<not> CR \<and> Other = {}"
  proof
    assume e: "R = {ci}"
    with f d emp show "CI \<and> \<not> SD \<and> \<not> PI \<and> \<not> CR \<and> Other = {}" by simp
  next
    assume "CI \<and> \<not> SD \<and> \<not> PI \<and> \<not> CR \<and> Other = {}"
    with eq show "R = {ci}" by auto
  qed
  show "R = {ci, sd} \<longleftrightarrow> CI \<and> SD \<and> \<not> PI \<and> \<not> CR \<and> Other = {}"
  proof
    assume e: "R = {ci, sd}"
    with f d emp show "CI \<and> SD \<and> \<not> PI \<and> \<not> CR \<and> Other = {}" by simp
  next
    assume "CI \<and> SD \<and> \<not> PI \<and> \<not> CR \<and> Other = {}"
    with eq show "R = {ci, sd}" by auto
  qed
  show "R = {pi, ci} \<longleftrightarrow> CI \<and> \<not> SD \<and> PI \<and> \<not> CR \<and> Other = {}"
  proof
    assume e: "R = {pi, ci}"
    with f d emp show "CI \<and> \<not> SD \<and> PI \<and> \<not> CR \<and> Other = {}" by simp
  next
    assume "CI \<and> \<not> SD \<and> PI \<and> \<not> CR \<and> Other = {}"
    with eq show "R = {pi, ci}" by auto
  qed
  show "R = {pi, cr} \<longleftrightarrow> \<not> CI \<and> \<not> SD \<and> PI \<and> CR \<and> Other = {}"
  proof
    assume e: "R = {pi, cr}"
    with f d emp show "\<not> CI \<and> \<not> SD \<and> PI \<and> CR \<and> Other = {}" by simp
  next
    assume "\<not> CI \<and> \<not> SD \<and> PI \<and> CR \<and> Other = {}"
    with eq show "R = {pi, cr}" by auto
  qed
  show "R = {sd, cr} \<longleftrightarrow> \<not> CI \<and> SD \<and> \<not> PI \<and> CR \<and> Other = {}"
  proof
    assume e: "R = {sd, cr}"
    with f d emp show "\<not> CI \<and> SD \<and> \<not> PI \<and> CR \<and> Other = {}" by simp
  next
    assume "\<not> CI \<and> SD \<and> \<not> PI \<and> CR \<and> Other = {}"
    with eq show "R = {sd, cr}" by auto
  qed
qed

lemma slot_key_mem [simp]: "x \<in> slot_key s k \<longleftrightarrow> s \<noteq> None \<and> x = k"
  by (simp add: slot_key_def split: option.splits)

lemma discard_if:
  "(case s of None \<Rightarrow> A | Some _ \<Rightarrow> A - {k}) = (if s = None then A else A - {k})"
  by (simp split: option.splits)

lemma discard_absent: "(s = None \<Longrightarrow> k \<notin> A) \<Longrightarrow> (if s = None then A else A - {k}) = A - {k}"
  by auto

lemma key_set_mem:
  "k \<in> key_set kw \<longleftrightarrow>
     (kw_verify_ssl kw \<noteq> None \<and> k = ''verify_ssl'')
   \<or> (kw_behaviour kw \<noteq> None \<and> k = ''behaviour'')
   \<or> (kw_userinfo_request_method kw \<noteq> None \<and> k = ''userinfo_request_method'')
   \<or> (kw_allow kw \<noteq> None \<and> k = ''allow'')
   \<or> (kw_client_info kw \<noteq> None \<and> k = ''client_info'')
   \<or> (kw_srv_discovery_url kw \<noteq> None \<and> k = ''srv_discovery_url'')
   \<or> (kw_provider_info kw \<noteq> None \<and> k = ''provider_info'')
   \<or> (kw_client_registration kw \<noteq> None \<and> k = ''client_registration'')
   \<or> k \<in> set (filter (\<lambda>k. k \<notin> set known_keys) (kw_other kw))"
  unfolding key_set_def by (simp only: Un_iff slot_key_mem disj_assoc)


lemma discarded_generic:
  fixes v b u a ci sd pi cr :: 'a
  assumes "ci \<notin> {v, b, u, a}" "sd \<notin> {v, b, u, a}" "pi \<notin> {v, b, u, a}" "cr \<notin> {v, b, u, a}"
    and "k \<in> Other \<Longrightarrow> k \<notin> {v, b, u, a}"
  shows "((V \<and> k = v) \<or> (B \<and> k = b) \<or> (U \<and> k = u) \<or> (A \<and> k = a) \<or> (CI \<and> k = ci)
           \<or> (SD \<and> k = sd) \<or> (PI \<and> k = pi) \<or> (CR \<and> k = cr) \<or> k \<in> Other)
          \<and> k \<noteq> v \<and> k \<noteq> u \<and> k \<noteq> b \<and> k \<noteq> a
         \<longleftrightarrow> (CI \<and> k = ci) \<or> (SD \<and> k = sd) \<or> (PI \<and> k = pi) \<or> (CR \<and> k = cr)
               \<or> k \<in> Other"
  using assms by auto

lemma key_present:
  "''verify_ssl'' \<in> key_set kw \<longleftrightarrow> kw_verify_ssl kw \<noteq> None"
  "''userinfo_request_method'' \<in> key_set kw \<longleftrightarrow> kw_userinfo_request_method kw \<noteq> None"
  "''allow'' \<in> key_set kw \<longleftrightarrow> kw_allow kw \<noteq> None"
  by (simp_all add: key_set_mem known_keys_def)

lemma remaining_keys_eq_diff:
  "remaining_keys kw =
     key_set kw - {''verify_ssl''} - {''userinfo_request_method''} - {''behaviour''} - {''allow''}"
  unfolding remaining_keys_def Let_def discard_if
  by (simp add: key_present)

lemma remaining_keys_mem:
  "k \<in> remaining_keys kw \<longleftrightarrow>
     (kw_client_info kw \<noteq> None \<and> k = ''client_info'')
   \<or> (kw_srv_discovery_url kw \<noteq> None \<and> k = ''srv_discovery_url'')
   \<or> (kw_provider_info kw \<noteq> None \<and> k = ''provider_info'')
   \<or> (kw_client_registration kw \<noteq> None \<and> k = ''client_registration'')
   \<or> k \<in> set (filter (\<lambda>k. k \<notin> set known_keys) (kw_other kw))"
proof -
  have "k \<in> remaining_keys kw \<longleftrightarrow>
          k \<in> key_set kw \<and> k \<noteq> ''verify_ssl'' \<and> k \<noteq> ''userinfo_request_method''
          \<and> k \<noteq> ''behaviour'' \<and> k \<noteq> ''allow''"
    unfolding remaining_keys_eq_diff by (simp only: Diff_iff singleton_iff conj_assoc)
  also have "\<dots> \<longleftrightarrow>
     (kw_client_info kw \<noteq> None \<and> k = ''client_info'')
   \<or> (kw_srv_discovery_url kw \<noteq> None \<and> k = ''srv_discovery_url'')
   \<or> (kw_provider_info kw \<noteq> None \<and> k = ''provider_info'')
   \<or> (kw_client_registration kw \<noteq> None \<and> k = ''client_registration'')
   \<or> k \<in> set (filter (\<lambda>k. k \<notin> set known_keys) (kw_other kw))"
    unfolding key_set_mem
    by (rule discarded_generic) (simp_all add: known_keys_def)
  finally show ?thesis .
qed

lemma no_other_keys_iff:
  "set (filter (\<lambda>k. k \<notin> set known_keys) (kw_other kw)) = {} \<longleftrightarrow> no_other_keys kw"
  by (auto simp add: no_other_keys_def list_all_iff filter_empty_conv)

lemmas remaining_keys_eq =
  election_cases [where R = "remaining_keys kw"
    and ci = "''client_info''" and sd = "''srv_discovery_url''" and pi = "''provider_info''"
    and cr = "''client_registration''"
    and Other = "set (filter (\<lambda>k. k \<notin> set known_keys) (kw_other kw))"
    and CI = "kw_client_info kw \<noteq> None" and SD = "kw_srv_discovery_url kw \<noteq> None"
    and PI = "kw_provider_info kw \<noteq> None" and CR = "kw_client_registration kw \<noteq> None",
    OF remaining_keys_mem, unfolded no_other_keys_iff, simplified known_keys_def, simplified]
  for kw

text \<open>The registry: \<^verbatim>\<open>get_path\<close>, the shared endings and \<^verbatim>\<open>create_client\<close> branch by branch.\<close>

lemma get_path_fields [simp]:
  "client (get_path self uris iss) = client self"
  "config (get_path self uris iss) = config self"
  "seed (get_path self uris iss) = seed self"
  "base_url (get_path self uris iss) = base_url self"
  by (induction uris arbitrary: self) simp_all

lemma get_path_path:
  "path (get_path self uris iss) k =
     (if k \<in> (\<lambda>u. drop 1 (urlsplit_path u)) ` set uris then Some iss else path self k)"
  by (induction uris arbitrary: self) auto

lemma register_and_get_path_Inr:
  assumes "returned (register_and_get_path E self cl kw iss ns) = Inr c"
  shows "\<exists>ci uris ep. kw_client_info kw = Some ci \<and> ci_redirect_uris ci = Some uris
           \<and> provider_info cl ''registration_endpoint'' = Some ep
           \<and> register E cl ep ci = Inr c
           \<and> registry_after (register_and_get_path E self cl kw iss ns) = get_path self uris iss
           \<and> requests (register_and_get_path E self cl kw iss ns) =
                ns @ [RegistrationRequest ep ci]"
  using assms unfolding register_and_get_path_def
  by (auto simp add: reg_done_def split: sum.splits)

lemma register_and_get_path_client [simp]:
  "client (registry_after (register_and_get_path E self cl kw iss ns)) = client self"
  unfolding register_and_get_path_def
  by (simp add: reg_done_def split: sum.splits)

lemma store_and_get_path_KeyError:
  assumes "kw_client_info kw = None"
  shows "returned (store_and_get_path E self cl kw iss ns) \<noteq> Inr c"
    and "registry_after (store_and_get_path E self cl kw iss ns) = self"
    and "requests (store_and_get_path E self cl kw iss ns) = ns"
  using assms unfolding store_and_get_path_def
  by (simp_all add: reg_done_def split: sum.splits)

lemma store_and_get_path_client [simp]:
  "client (registry_after (store_and_get_path E self cl kw iss ns)) = client self"
  unfolding store_and_get_path_def
  by (simp add: reg_done_def split: sum.splits)

lemma create_client_dynamic:
  assumes "kw_behaviour kw = Some b" "kw_verify_ssl kw = None"
    and "remaining_keys kw = {''client_info''}"
  shows "create_client E self kw =
     (let userid = (case kw_userid kw of None \<Rightarrow> [] | Some u \<Rightarrow> u)
      in if userid = []
         then reg_done (Inl (MissingAttribute ''Missing userid specification'')) self []
         else
         (case discovery_query E userid of
            Inl e \<Rightarrow> reg_done (Inl e) self [WebFinger userid]
          | Inr issuer \<Rightarrow>
         (case provider_config E (new_client E self kw b) issuer of
            Inl e \<Rightarrow> reg_done (Inl e) self [WebFinger userid, ProviderConfigRequest issuer]
          | Inr (_, cl3) \<Rightarrow>
              register_and_get_path E self cl3 kw issuer
                [WebFinger userid, ProviderConfigRequest issuer])))"
  using assms by (simp add: create_client_def Let_def)

lemma create_client_discovery:
  assumes "kw_behaviour kw = Some b" "kw_verify_ssl kw = None"
    and "remaining_keys kw = {''client_info'', ''srv_discovery_url''}"
  shows "create_client E self kw =
     (case getfield (kw_srv_discovery_url kw) ''srv_discovery_url'' of
           Inl e \<Rightarrow> reg_done (Inl e) self []
         | Inr url \<Rightarrow>
        (case provider_config E (new_client E self kw b) url of
           Inl e \<Rightarrow> reg_done (Inl e) self [ProviderConfigRequest url]
         | Inr (_, cl3) \<Rightarrow>
             register_and_get_path E self cl3 kw url [ProviderConfigRequest url]))"
  using assms by (clarsimp simp add: create_client_def Let_def remaining_keys_eq)

lemma create_client_provider_info:
  assumes "kw_behaviour kw = Some b" "kw_verify_ssl kw = None"
    and "remaining_keys kw = {''provider_info'', ''client_info''}"
  shows "create_client E self kw =
     (case supplied_provider_config E (new_client E self kw b) kw of
           Inl e \<Rightarrow> reg_done (Inl e) self []
         | Inr (issuer, cl3) \<Rightarrow> register_and_get_path E self cl3 kw issuer [])"
  using assms by (clarsimp simp add: create_client_def Let_def remaining_keys_eq)

lemma create_client_provider_info_registration:
  assumes "kw_behaviour kw = Some b" "kw_verify_ssl kw = None"
    and "remaining_keys kw = {''provider_info'', ''client_registration''}"
  shows "create_client E self kw =
     (case supplied_provider_config E (new_client E self kw b) kw of
           Inl e \<Rightarrow> reg_done (Inl e) self []
         | Inr (issuer, cl3) \<Rightarrow> store_and_get_path E self cl3 kw issuer [])"
  using assms by (clarsimp simp add: create_client_def Let_def remaining_keys_eq)

lemma create_client_discovery_registration:
  assumes "kw_behaviour kw = Some b" "kw_verify_ssl kw = None"
    and "remaining_keys kw = {''srv_discovery_url'', ''client_registration''}"
  shows "create_client E self kw =
     (case getfield (kw_srv_discovery_url kw) ''srv_discovery_url'' of
           Inl e \<Rightarrow> reg_done (Inl e) self []
         | Inr url \<Rightarrow>
        (case provider_config E (new_client E self kw b) url of
           Inl e \<Rightarrow> reg_done (Inl e) self [ProviderConfigRequest url]
         | Inr (_, cl3) \<Rightarrow> store_and_get_path E self cl3 kw url [ProviderConfigRequest url]))"
  using assms by (clarsimp simp add: create_client_def Let_def remaining_keys_eq)

lemma create_client_configuration_error:
  assumes "kw_behaviour kw = Some b" "kw_verify_ssl kw = None"
    and "remaining_keys kw \<noteq> {''client_info''}"
    and "remaining_keys kw \<noteq> {''client_info'', ''srv_discovery_url''}"
    and "remaining_keys kw \<noteq> {''provider_info'', ''client_info''}"
    and "remaining_keys kw \<noteq> {''provider_info'', ''client_registration''}"
    and "remaining_keys kw \<noteq> {''srv_discovery_url'', ''client_registration''}"
  shows "create_client E self kw = reg_done (Inl (PyException ''Configuration error ?'')) self []"
  using assms by (simp add: create_client_def Let_def)

lemma create_client_no_behaviour:
  "kw_behaviour kw = None \<Longrightarrow>
     create_client E self kw = reg_done (Inl (KeyError ''behaviour'')) self []"
  by (simp add: create_client_def)

lemma create_client_verify_ssl:
  "kw_behaviour kw = Some b \<Longrightarrow> kw_verify_ssl kw = Some v \<Longrightarrow>
     create_client E self kw = reg_done (Inl (TypeError ''verify_ssl'')) self []"
  by (simp add: create_client_def)

text \<open>Every way through create_client, for case analysis.\<close>

lemma create_client_cases [case_names no_behaviour verify_ssl dynamic discovery provider_info
    provider_info_registration discovery_registration configuration_error]:
  assumes "kw_behaviour kw = None \<Longrightarrow> P"
    and "\<And>b v. kw_behaviour kw = Some b \<Longrightarrow> kw_verify_ssl kw = Some v \<Longrightarrow> P"
    and "\<And>b. kw_behaviour kw = Some b \<Longrightarrow> kw_verify_ssl kw = None \<Longrightarrow>
           remaining_keys kw = {''client_info''} \<Longrightarrow> P"
    and "\<And>b. kw_behaviour kw = Some b \<Longrightarrow> kw_verify_ssl kw = None \<Longrightarrow>
           remaining_keys kw = {''client_info'', ''srv_discovery_url''} \<Longrightarrow> P"
    and "\<And>b. kw_behaviour kw = Some b \<Longrightarrow> kw_verify_ssl kw = None \<Longrightarrow>
           remaining_keys kw = {''provider_info'', ''client_info''} \<Longrightarrow> P"
    and "\<And>b. kw_behaviour kw = Some b \<Longrightarrow> kw_verify_ssl kw = None \<Longrightarrow>
           remaining_keys kw = {''provider_info'', ''client_registration''} \<Longrightarrow> P"
    and "\<And>b. kw_behaviour kw = Some b \<Longrightarrow> kw_verify_ssl kw = None \<Longrightarrow>
           remaining_keys kw = {''srv_discovery_url'', ''client_registration''} \<Longrightarrow> P"
    and "\<And>b. kw_behaviour kw = Some b \<Longrightarrow> kw_verify_ssl kw = None \<Longrightarrow>
           remaining_keys kw \<noteq> {''client_info''} \<Longrightarrow>
           remaining_keys kw \<noteq> {''client_info'', ''srv_discovery_url''} \<Longrightarrow>
           remaining_keys kw \<noteq> {''provider_info'', ''client_info''} \<Longrightarrow>
           remaining_keys kw \<noteq> {''provider_info'', ''client_registration''} \<Longrightarrow>
           remaining_keys kw \<noteq> {''srv_discovery_url'', ''client_registration''} \<Longrightarrow> P"
  shows P
proof (cases "kw_behaviour kw")
  case None
  then show ?thesis by (rule assms(1))
next
  case (Some b)
  show ?thesis
  proof (cases "kw_verify_ssl kw")
    case (Some v)
    with \<open>kw_behaviour kw = Some b\<close> show ?thesis by (rule assms(2))
  next
    case None
    note bv = \<open>kw_behaviour kw = Some b\<close> None
    show ?thesis
    proof (cases "remaining_keys kw = {''client_info''}")
      case True
      with bv show ?thesis by (rule assms(3))
    next
      case n1: False
      show ?thesis
      proof (cases "remaining_keys kw = {''client_info'', ''srv_discovery_url''}")
        case True
        with bv show ?thesis by (rule assms(4))
      next
        case n2: False
        show ?thesis
        proof (cases "remaining_keys kw = {''provider_info'', ''client_info''}")
          case True
          with bv show ?thesis by (rule assms(5))
        next
          case n3: False
          show ?thesis
          proof (cases "remaining_keys kw = {''provider_info'', ''client_registration''}")
            case True
            with bv show ?thesis by (rule assms(6))
          next
            case n4: False
            show ?thesis
            proof (cases "remaining_keys kw = {''srv_discovery_url'', ''client_registration''}")
              case True
              with bv show ?thesis by (rule assms(7))
            next
              case False
              with bv n1 n2 n3 n4 show ?thesis by (rule assms(8))
            qed
          qed
        qed
      qed
    qed
  qed
qed

lemma supplied_provider_config_Inr:
  assumes "supplied_provider_config E cl kw = Inr (iss, cl')"
  shows "\<exists>p. kw_provider_info kw = Some p \<and> p ''issuer'' = Some iss"
  using assms unfolding supplied_provider_config_def
  by (auto split: sum.splits)

lemma create_client_client [simp]:
  "client (registry_after (create_client E self kw)) = client self"
proof (cases kw rule: create_client_cases)
  case no_behaviour
  then show ?thesis by (simp add: create_client_no_behaviour reg_done_def)
next
  case (verify_ssl b v)
  then show ?thesis by (simp add: create_client_verify_ssl reg_done_def)
next
  case (dynamic b)
  then show ?thesis
    by (simp add: create_client_dynamic reg_done_def Let_def split: sum.splits prod.splits)
next
  case (discovery b)
  then show ?thesis
    by (simp add: create_client_discovery reg_done_def split: sum.splits prod.splits)
next
  case (provider_info b)
  then show ?thesis
    by (simp add: create_client_provider_info reg_done_def split: sum.splits prod.splits)
next
  case (provider_info_registration b)
  then show ?thesis
    by (simp add: create_client_provider_info_registration reg_done_def
        split: sum.splits prod.splits)
next
  case (discovery_registration b)
  then show ?thesis
    by (simp add: create_client_discovery_registration reg_done_def
        split: sum.splits prod.splits)
next
  case (configuration_error b)
  then show ?thesis by (simp add: create_client_configuration_error reg_done_def)
qed

lemma create_client_Inr_pre:
  assumes "returned (create_client E self kw) = Inr c"
  shows "\<exists>b. kw_behaviour kw = Some b" and "kw_verify_ssl kw = None"
proof -
  show b: "\<exists>b. kw_behaviour kw = Some b"
    using assms create_client_no_behaviour [of kw E self]
    by (cases "kw_behaviour kw") (auto simp add: reg_done_def)
  then obtain b where "kw_behaviour kw = Some b" ..
  then show "kw_verify_ssl kw = None"
    using assms create_client_verify_ssl [of kw b _ E self]
    by (cases "kw_verify_ssl kw") (auto simp add: reg_done_def)
qed

lemma recorded_paths:
  "registry_after r = get_path self uris iss \<Longrightarrow>
     \<forall>u \<in> set uris. path (registry_after r) (drop 1 (urlsplit_path u)) = Some iss"
  by (simp add: get_path_path)

lemma create_client_dynamic_Inr:
  assumes "returned (create_client E self kw) = Inr c"
    and "remaining_keys kw = {''client_info''}"
  shows "\<exists>ci uris iss ep u.
           kw_client_info kw = Some ci \<and> ci_redirect_uris ci = Some uris
           \<and> registry_after (create_client E self kw) = get_path self uris iss
           \<and> kw_userid kw = Some u \<and> discovery_query E u = Inr iss
           \<and> requests (create_client E self kw) =
                [WebFinger u, ProviderConfigRequest iss, RegistrationRequest ep ci]"
proof -
  from create_client_Inr_pre [OF assms(1)] obtain b where
    "kw_behaviour kw = Some b" "kw_verify_ssl kw = None" by blast
  note eq = create_client_dynamic [OF this assms(2)]
  from assms(1) show ?thesis unfolding eq Let_def
    by (auto simp add: reg_done_def split: sum.splits prod.splits if_splits option.splits
        dest!: register_and_get_path_Inr)
qed

lemma create_client_discovery_Inr:
  assumes "returned (create_client E self kw) = Inr c"
    and "remaining_keys kw = {''client_info'', ''srv_discovery_url''}"
  shows "\<exists>ci uris iss ep.
           kw_client_info kw = Some ci \<and> ci_redirect_uris ci = Some uris
           \<and> registry_after (create_client E self kw) = get_path self uris iss
           \<and> kw_srv_discovery_url kw = Some iss
           \<and> requests (create_client E self kw) =
                [ProviderConfigRequest iss, RegistrationRequest ep ci]"
proof -
  from create_client_Inr_pre [OF assms(1)] obtain b where
    "kw_behaviour kw = Some b" "kw_verify_ssl kw = None" by blast
  note eq = create_client_discovery [OF this assms(2)]
  from assms(1) show ?thesis unfolding eq
    by (auto simp add: reg_done_def split: sum.splits prod.splits
        dest!: register_and_get_path_Inr)
qed

lemma create_client_provider_info_Inr:
  assumes "returned (create_client E self kw) = Inr c"
    and "remaining_keys kw = {''provider_info'', ''client_info''}"
  shows "\<exists>ci uris iss ep p.
           kw_client_info kw = Some ci \<and> ci_redirect_uris ci = Some uris
           \<and> registry_after (create_client E self kw) = get_path self uris iss
           \<and> kw_provider_info kw = Some p \<and> p ''issuer'' = Some iss
           \<and> requests (create_client E self kw) = [RegistrationRequest ep ci]"
proof -
  from create_client_Inr_pre [OF assms(1)] obtain b where
    "kw_behaviour kw = Some b" "kw_verify_ssl kw = None" by blast
  note eq = create_client_provider_info [OF this assms(2)]
  from assms(1) show ?thesis unfolding eq
    by (auto simp add: reg_done_def split: sum.splits prod.splits
        dest!: register_and_get_path_Inr supplied_provider_config_Inr)
qed

lemma create_client_registration_raises:
  assumes "remaining_keys kw = {''provider_info'', ''client_registration''}
           \<or> remaining_keys kw = {''srv_discovery_url'', ''client_registration''}"
  shows "returned (create_client E self kw) \<noteq> Inr c"
proof
  assume r: "returned (create_client E self kw) = Inr c"
  from create_client_Inr_pre [OF r] obtain b where
    bv: "kw_behaviour kw = Some b" "kw_verify_ssl kw = None" by blast
  from assms have ci: "kw_client_info kw = None"
    by (auto simp add: remaining_keys_eq)
  from assms show False
  proof
    assume k: "remaining_keys kw = {''provider_info'', ''client_registration''}"
    from r ci show False
      unfolding create_client_provider_info_registration [OF bv k]
      by (simp add: reg_done_def store_and_get_path_KeyError split: sum.splits prod.splits)
  next
    assume k: "remaining_keys kw = {''srv_discovery_url'', ''client_registration''}"
    from r ci show False
      unfolding create_client_discovery_registration [OF bv k]
      by (simp add: reg_done_def store_and_get_path_KeyError split: sum.splits prod.splits)
  qed
qed

section \<open>The state comparison\<close>

text \<open>
  C1. When the parsed response is not an error response and its state differs from the
  state of the session, \<^verbatim>\<open>callback\<close> ends with the \<^verbatim>\<open>OIDCError\<close>
  \<^verbatim>\<open>Received state not the same as expected.\<close> as its value; it has issued no request
  (no access token request, no userinfo request), and it has changed neither the client
  nor the session, so no later statement of the method has run.
\<close>

theorem callback_state_mismatch:
  assumes "parse_response E response = Inr (Response authresp)"
    and "session ''state'' = Some s"
    and "ar_state authresp = Some a"
    and "s \<noteq> a"
  shows "callback E self response session =
           \<lparr>outcome = Inr (ErrorObject (OIDCError ''Received state not the same as expected.'')),
            client_after = self, session_after = session, calls = []\<rparr>"
  unfolding callback_def obtain_id_token_def using assms
  by (simp add: getitem_def getfield_def finish_def)

theorem callback_state_mismatch_witness:
  "callback (example_env (Response (example_authresp ''S1'' None)) (ErrorResponse ''unused'')
              (ErrorResponse ''unused''))
            (example_client ''code'' False) ''state=S1&code=c0de'' example_session =
     \<lparr>outcome = Inr (ErrorObject (OIDCError ''Received state not the same as expected.'')),
      client_after = example_client ''code'' False, session_after = example_session,
      calls = []\<rparr>"
  by (rule callback_state_mismatch [where authresp = "example_authresp ''S1'' None"
        and s = "''S2''" and a = "''S1''"])
     (simp_all add: example_env_def example_authresp_def example_session_def)


section \<open>The nonce comparisons\<close>



section \<open>The access token request\<close>

text \<open>
  C4 (as amended). The access token request is issued exactly for the response type
  \<^verbatim>\<open>"code"\<close>. Every access token request that \<^verbatim>\<open>callback\<close> issues comes from a client
  whose \<^verbatim>\<open>response_type\<close> is the string \<^verbatim>\<open>code\<close>, and carries the scope \<^verbatim>\<open>openid\<close>, the
  state of the session, the first registered redirect URI, the client's id and secret,
  and the registered \<^verbatim>\<open>token_endpoint_auth_method\<close>. A client with any other response
  type, also one that only includes \<^verbatim>\<open>code\<close>, issues none. And a \<^verbatim>\<open>"code"\<close> client whose
  call gets past the state comparison and the ID token of the response, with a code in
  the response and a registered redirect URI and authentication method, issues that
  request first.
\<close>

theorem code_exchange_when_code:
  "(TokenRequest req \<in> set (calls (callback E self response session)) \<longrightarrow>
      behaviour self ''response_type'' = Some (Str ''code'')
      \<and> tr_scope req = ''openid'' \<and> session ''state'' = Some (tr_state req)
      \<and> first_redirect_uri self = Inr (tr_redirect_uri req)
      \<and> tr_client_id req = client_id self \<and> tr_client_secret req = client_secret self
      \<and> registered_auth_method self = Inr (tr_authn_method req))
   \<and> (behaviour self1 ''response_type'' \<noteq> Some (Str ''code'') \<longrightarrow>
        (\<forall>r. TokenRequest r \<notin> set (calls (callback E self1 response1 session1))))
   \<and> (parse_response E response2 = Inr (Response authresp)
        \<and> session2 ''state'' = Some st \<and> ar_state authresp = Some st
        \<and> front_channel_id_token self2 session2 authresp st = Go (ft, c)
        \<and> behaviour self2 ''response_type'' = Some (Str ''code'')
        \<and> ar_code authresp = Some a_code \<and> first_redirect_uri self2 = Inr ruri
        \<and> registered_auth_method self2 = Inr am \<longrightarrow>
        (\<exists>rest. calls (callback E self2 response2 session2) =
           TokenRequest \<lparr>tr_scope = ''openid'', tr_state = st, tr_code = a_code,
              tr_redirect_uri = ruri, tr_client_id = client_id self2,
              tr_client_secret = client_secret self2, tr_authn_method = am\<rparr> # rest))"
proof -
  have p1: "behaviour self ''response_type'' = Some (Str ''code'')
      \<and> tr_scope req = ''openid'' \<and> session ''state'' = Some (tr_state req)
      \<and> first_redirect_uri self = Inr (tr_redirect_uri req)
      \<and> tr_client_id req = client_id self \<and> tr_client_secret req = client_secret self
      \<and> registered_auth_method self = Inr (tr_authn_method req)"
    if "TokenRequest req \<in> set (calls (callback E self response session))"
    using callback_calls [OF that] by auto
  have p2: "TokenRequest r \<notin> set (calls (callback E self1 response1 session1))"
    if "behaviour self1 ''response_type'' \<noteq> Some (Str ''code'')" for r
    using that callback_calls [of "TokenRequest r" E self1 response1 session1] by auto
  have p3: "\<exists>rest. calls (callback E self2 response2 session2) =
           TokenRequest \<lparr>tr_scope = ''openid'', tr_state = st, tr_code = a_code,
              tr_redirect_uri = ruri, tr_client_id = client_id self2,
              tr_client_secret = client_secret self2, tr_authn_method = am\<rparr> # rest"
    if h: "parse_response E response2 = Inr (Response authresp)
        \<and> session2 ''state'' = Some st \<and> ar_state authresp = Some st
        \<and> front_channel_id_token self2 session2 authresp st = Go (ft, c)
        \<and> behaviour self2 ''response_type'' = Some (Str ''code'')
        \<and> ar_code authresp = Some a_code \<and> first_redirect_uri self2 = Inr ruri
        \<and> registered_auth_method self2 = Inr am"
  proof -
    let ?req = "\<lparr>tr_scope = ''openid'', tr_state = st, tr_code = a_code,
              tr_redirect_uri = ruri, tr_client_id = client_id self2,
              tr_client_secret = client_secret self2, tr_authn_method = am\<rparr>"
    from h have ss: "same_settings self2 c" using front_channel_Go(1) by blast
    obtain x c' ns where ex: "code_exchange E c authresp st = (x, c', ns)"
      by (cases "code_exchange E c authresp st") auto
    have "snd (snd (code_exchange E c authresp st)) = [TokenRequest ?req]"
      using code_exchange_issues [of authresp a_code c ruri am E st] h ss
        same_settings_uris [OF ss]
      by (simp add: same_settings_def)
    with ex have ns: "ns = [TokenRequest ?req]" by simp
    show ?thesis
    proof (cases x)
      case (Inl e)
      with h ss ex ns show ?thesis
        by (simp add: callback_def obtain_id_token_def finish_def same_settings_def)
    next
      case (Inr t)
      with code_exchange_Inr [of E c authresp st t c' ns] ex obtain tok where "t = Some tok"
        by auto
      with Inr h ss ex have "callback E self2 response2 session2 =
                  check_id_token E c' session2 st tok ns"
        by (simp add: callback_def obtain_id_token_def same_settings_def)
      with check_id_token_calls [of E c' session2 st tok ns] ns show ?thesis
        by auto
    qed
  qed
  from p1 p2 p3 show ?thesis by blast
qed


theorem code_exchange_when_code_witness:
  "(\<exists>rest. calls (callback (example_env (Response (example_authresp ''S2'' None))
              (Response \<lparr>at_id_token = Some (example_token ''https://op.example'' ''abc'' ''N1'' ''RS256'')\<rparr>)
              (Response [''sub'' \<mapsto> ''abc'']))
            (example_client ''code'' False) ''cb'' example_session) =
        TokenRequest \<lparr>tr_scope = ''openid'', tr_state = ''S2'', tr_code = ''c0de'',
              tr_redirect_uri = ''https://rp.example/cb'', tr_client_id = Some ''rp1'',
              tr_client_secret = Some ''hush'', tr_authn_method = ''client_secret_basic''\<rparr> # rest)
   \<and> (\<forall>r. TokenRequest r \<notin> set (calls (callback (example_env
              (Response (example_authresp ''S2''
                 (Some (example_token ''https://op.example'' ''abc'' ''N1'' ''RS256''))))
              (ErrorResponse ''unused'') (Response [''sub'' \<mapsto> ''abc'']))
            (example_client ''id_token'' False) ''cb'' example_session)))"
proof -
  let ?E1 = "example_env (Response (example_authresp ''S2'' None))
              (Response \<lparr>at_id_token = Some (example_token ''https://op.example'' ''abc'' ''N1'' ''RS256'')\<rparr>)
              (Response [''sub'' \<mapsto> ''abc''])"
  have a: "\<exists>rest. calls (callback ?E1 (example_client ''code'' False) ''cb'' example_session) =
        TokenRequest \<lparr>tr_scope = ''openid'', tr_state = ''S2'', tr_code = ''c0de'',
              tr_redirect_uri = ''https://rp.example/cb'',
              tr_client_id = client_id (example_client ''code'' False),
              tr_client_secret = client_secret (example_client ''code'' False),
              tr_authn_method = ''client_secret_basic''\<rparr> # rest"
    by (rule code_exchange_when_code [THEN conjunct2, THEN conjunct2, rule_format,
          where authresp = "example_authresp ''S2'' None" and ft = None
            and c = "example_client ''code'' False"])
       (simp add: example_defs front_channel_id_token_def first_redirect_uri_def
          registered_auth_method_def first_item_def)
  have b: "\<forall>r. TokenRequest r \<notin> set (calls (callback (example_env
              (Response (example_authresp ''S2''
                 (Some (example_token ''https://op.example'' ''abc'' ''N1'' ''RS256''))))
              (ErrorResponse ''unused'') (Response [''sub'' \<mapsto> ''abc'']))
            (example_client ''id_token'' False) ''cb'' example_session))"
  proof (intro allI)
    fix r
    show "TokenRequest r \<notin> set (calls (callback (example_env
              (Response (example_authresp ''S2''
                 (Some (example_token ''https://op.example'' ''abc'' ''N1'' ''RS256''))))
              (ErrorResponse ''unused'') (Response [''sub'' \<mapsto> ''abc'']))
            (example_client ''id_token'' False) ''cb'' example_session))"
      by (rule code_exchange_when_code [THEN conjunct2, THEN conjunct1, rule_format])
         (simp add: example_defs)
  qed
  from a b show ?thesis by (simp add: example_client_def)
qed

text \<open>
  The claim as stated fails for the hybrid response type \<^verbatim>\<open>"code id_token"\<close>: the
  response carries a code and a valid ID token, the call is accepted, and the only
  request issued is the userinfo request.
\<close>

theorem hybrid_response_type_counterexample:
  "calls (callback (example_env
              (Response (example_authresp ''S2''
                 (Some (example_token ''https://op.example'' ''abc'' ''N1'' ''RS256''))))
              (Response \<lparr>at_id_token = Some (example_token ''https://op.example'' ''abc'' ''N1'' ''RS256'')\<rparr>)
              (Response [''sub'' \<mapsto> ''abc'']))
            (example_client ''code id_token'' False) ''cb'' example_session)
     = [UserInfoRequest ''S2'' None]"
  by (simp add: callback_defs example_defs)

section \<open>An access token response without an ID token\<close>

text \<open>
  C5. With the response type \<^verbatim>\<open>"code"\<close>, a matching state and a successful access token
  response that has no \<^verbatim>\<open>id_token\<close> entry, \<^verbatim>\<open>atresp['id_token']\<close> raises \<^verbatim>\<open>KeyError\<close>; the
  test \<^verbatim>\<open>if _id_token is None\<close> and its \<^verbatim>\<open>OIDCError\<close> are not reached.
\<close>

theorem token_response_without_id_token:
  "outcome (callback (example_env (Response (example_authresp ''S2'' None))
              (Response \<lparr>at_id_token = None\<rparr>) (Response [''sub'' \<mapsto> ''abc'']))
            (example_client ''code'' False) ''cb'' example_session)
     = Inl (KeyError ''id_token'')"
  by (simp add: callback_defs example_defs)

section \<open>The "none" algorithm\<close>

text \<open>
  C3. \<^verbatim>\<open>Client.__init__\<close> sets \<^verbatim>\<open>allow_sign_alg_none\<close> to false. For an ID token signed
  with the algorithm \<^verbatim>\<open>none\<close> that has passed the issuer and nonce comparisons: when the
  flag is false, \<^verbatim>\<open>callback\<close> raises the \<^verbatim>\<open>OIDCError\<close>
  \<^verbatim>\<open>Do not allow "none" signature algorithm\<close> and issues no userinfo request; when the
  flag is true, the token goes on to the userinfo request and is accepted when the
  userinfo's subject is the token's. A call that accepts such a token has the flag set.
  And the comparisons raise that error only with the flag false and the algorithm
  \<^verbatim>\<open>none\<close>: a token signed with any other algorithm is never rejected by it.
\<close>

theorem none_algorithm_gate:
  \<open>allow_sign_alg_none (Client_init base b) = False
   \<and> (obtain_id_token E self response session = Inr (st, tok, self', ns)
       \<and> claims tok ''iss'' = Some i \<and> provider_info self ''issuer'' = Some i
       \<and> claims tok ''nonce'' = Some n \<and> session ''nonce'' = Some n
       \<and> jws_header tok ''alg'' = Some ''none'' \<longrightarrow>
        (\<not> allow_sign_alg_none self \<longrightarrow>
           callback E self response session =
             \<lparr>outcome = Inl (OIDCError ''Do not allow "none" signature algorithm''),
              client_after = self', session_after = session, calls = ns\<rparr>)
        \<and> (allow_sign_alg_none self \<and> claims tok ''sub'' = Some sub
            \<and> do_user_info_request E st
                 (if userinfo_request_method self \<noteq> []
                  then Some (userinfo_request_method self) else None) = Inr (Response info)
            \<and> info ''sub'' = Some sub \<longrightarrow>
            outcome (callback E self response session) = Inr (Identity (i @ '':'' @ sub) info)))
   \<and> (obtain_id_token E1 self1 response1 session1 = Inr (st1, tok1, self1', ns1)
       \<and> jws_header tok1 ''alg'' = Some ''none''
       \<and> outcome (callback E1 self1 response1 session1) = Inr (Identity uid1 info1) \<longrightarrow>
        allow_sign_alg_none self1)
   \<and> (verify_id_token self2 session2 tok2 =
         Inl (OIDCError ''Do not allow "none" signature algorithm'') \<longrightarrow>
        \<not> allow_sign_alg_none self2 \<and> jws_header tok2 ''alg'' = Some ''none'')\<close>
proof -
  have p0: "allow_sign_alg_none (Client_init base b) = False"
    by (simp add: Client_init_def Let_def split: option.splits)
  have p1: \<open>callback E self response session =
             \<lparr>outcome = Inl (OIDCError ''Do not allow "none" signature algorithm''),
              client_after = self', session_after = session, calls = ns\<rparr>\<close>
    if h: "obtain_id_token E self response session = Inr (st, tok, self', ns)
       \<and> claims tok ''iss'' = Some i \<and> provider_info self ''issuer'' = Some i
       \<and> claims tok ''nonce'' = Some n \<and> session ''nonce'' = Some n
       \<and> jws_header tok ''alg'' = Some ''none''" and f: "\<not> allow_sign_alg_none self"
  proof -
    from h have ss: "same_settings self self'" using obtain_id_token_Inr(1) by blast
    have \<open>verify_id_token self session tok =
            Inl (OIDCError ''Do not allow "none" signature algorithm'')\<close>
      using h f by (simp add: verify_id_token_def)
    with verify_id_token_same [OF ss] h show ?thesis
      by (simp add: callback_def check_id_token_raises finish_def)
  qed
  have p2: "outcome (callback E self response session) = Inr (Identity (i @ '':'' @ sub) info)"
    if h: "obtain_id_token E self response session = Inr (st, tok, self', ns)
       \<and> claims tok ''iss'' = Some i \<and> provider_info self ''issuer'' = Some i
       \<and> claims tok ''nonce'' = Some n \<and> session ''nonce'' = Some n
       \<and> jws_header tok ''alg'' = Some ''none''"
      and g: "allow_sign_alg_none self \<and> claims tok ''sub'' = Some sub
            \<and> do_user_info_request E st
                 (if userinfo_request_method self \<noteq> []
                  then Some (userinfo_request_method self) else None) = Inr (Response info)
            \<and> info ''sub'' = Some sub"
  proof -
    from h have ss: "same_settings self self'" using obtain_id_token_Inr(1) by blast
    have "verify_id_token self session tok = Inr ()"
      using h g by (simp add: verify_id_token_Inr)
    with verify_id_token_same [OF ss] have "verify_id_token self' session tok = Inr ()"
      by simp
    moreover have "userinfo_request_method self' = userinfo_request_method self"
      using ss by (simp add: same_settings_def)
    ultimately show ?thesis using h g
      by (cases "userinfo_request_method self = []")
         (simp_all add: callback_def check_id_token_def finish_def Let_def)
  qed
  have p3: "allow_sign_alg_none self1"
    if h: "obtain_id_token E1 self1 response1 session1 = Inr (st1, tok1, self1', ns1)
       \<and> jws_header tok1 ''alg'' = Some ''none''
       \<and> outcome (callback E1 self1 response1 session1) = Inr (Identity uid1 info1)"
  proof -
    from h have ss: "same_settings self1 self1'" using obtain_id_token_Inr(1) by blast
    from h have "outcome (check_id_token E1 self1' session1 st1 tok1 ns1)
                   = Inr (Identity uid1 info1)"
      by (auto simp add: callback_def)
    from check_id_token_accepts [OF this] verify_id_token_same [OF ss]
    have "verify_id_token self1 session1 tok1 = Inr ()" by simp
    with h show ?thesis by (auto simp add: verify_id_token_Inr)
  qed
  have p4: \<open>\<not> allow_sign_alg_none self2 \<and> jws_header tok2 ''alg'' = Some ''none''\<close>
    if \<open>verify_id_token self2 session2 tok2 =
         Inl (OIDCError ''Do not allow "none" signature algorithm'')\<close>
    using that unfolding verify_id_token_def
    by (auto split: sum.splits if_splits)
  from p0 p1 p2 p3 p4 show ?thesis by blast
qed

text \<open>
  On the example deployment: the same response, with an ID token signed with \<^verbatim>\<open>none\<close>,
  is rejected by the client with the flag false and accepted by the one with it true.
\<close>

theorem none_algorithm_gate_witness:
  \<open>callback (example_env
        (Response (example_authresp ''S2''
           (Some (example_token ''https://op.example'' ''abc'' ''N1'' ''none''))))
        (ErrorResponse ''unused'') (Response [''sub'' \<mapsto> ''abc'']))
      (example_client ''id_token'' False) ''cb'' example_session =
     \<lparr>outcome = Inl (OIDCError ''Do not allow "none" signature algorithm''),
      client_after = store_id_token (example_client ''id_token'' False) ''S2''
                       (example_token ''https://op.example'' ''abc'' ''N1'' ''none''),
      session_after = example_session, calls = []\<rparr>
   \<and> outcome (callback (example_env
        (Response (example_authresp ''S2''
           (Some (example_token ''https://op.example'' ''abc'' ''N1'' ''none''))))
        (ErrorResponse ''unused'') (Response [''sub'' \<mapsto> ''abc'']))
      (example_client ''id_token'' True) ''cb'' example_session)
      = Inr (Identity ''https://op.example:abc'' [''sub'' \<mapsto> ''abc''])\<close>
proof -
  let ?tok = "example_token ''https://op.example'' ''abc'' ''N1'' ''none''"
  let ?E = "example_env (Response (example_authresp ''S2'' (Some ?tok)))
              (ErrorResponse ''unused'') (Response [''sub'' \<mapsto> ''abc''])"
  have ob: "obtain_id_token ?E (example_client ''id_token'' f) ''cb'' example_session =
              Inr (''S2'', ?tok, store_id_token (example_client ''id_token'' f) ''S2'' ?tok, [])
            \<and> claims ?tok ''iss'' = Some ''https://op.example''
            \<and> provider_info (example_client ''id_token'' f) ''issuer'' = Some ''https://op.example''
            \<and> claims ?tok ''nonce'' = Some ''N1'' \<and> example_session ''nonce'' = Some ''N1''
            \<and> jws_header ?tok ''alg'' = Some ''none''" for f
    by (simp add: obtain_id_token_def front_channel_id_token_def example_defs)
  note g = none_algorithm_gate [where sub = "''abc''" and info = "[''sub'' \<mapsto> ''abc'']",
      THEN conjunct2, THEN conjunct1, THEN mp]
  have a: \<open>callback ?E (example_client ''id_token'' False) ''cb'' example_session =
     \<lparr>outcome = Inl (OIDCError ''Do not allow "none" signature algorithm''),
      client_after = store_id_token (example_client ''id_token'' False) ''S2'' ?tok,
      session_after = example_session, calls = []\<rparr>\<close>
    using g [OF ob [of False], THEN conjunct1] by (simp add: example_client_def)
  have b: "outcome (callback ?E (example_client ''id_token'' True) ''cb'' example_session)
      = Inr (Identity ''https://op.example:abc'' [''sub'' \<mapsto> ''abc''])"
    using g [OF ob [of True], THEN conjunct2]
    by (simp add: example_defs)
  from a b show ?thesis by blast
qed

section \<open>Returned and raised errors\<close>




end
